theory Spec2Isabelle
  imports Complex_Main "HOL-Library.Log_Nat"
begin

section \<open>JavaScript numbers\<close>

text \<open>
  A JavaScript number is an IEEE binary64 value: a finite number, one of the two
  infinities, or \<^verbatim>\<open>NaN\<close>. The sign of zero is not modelled. The operations of this
  section (\<^verbatim>\<open>+ - * /\<close>, \<^verbatim>\<open><=\<close>, \<^verbatim>\<open>Math.ceil\<close>, \<^verbatim>\<open>Math.min\<close>, \<^verbatim>\<open>Math.max\<close>) give the
  exact result on finite operands and the IEEE result where a special value is
  involved; the next section rounds the exact result of the four arithmetic operations
  to binary64. A zero divisor is taken as \<^verbatim>\<open>+0\<close>: the sources divide by a difference of
  two numbers, which is \<^verbatim>\<open>+0\<close> when it is zero, and by a step that has passed the test
  \<^verbatim>\<open>stepMs <= 0\<close>.
\<close>

datatype jsnum = Fin real | PosInf | NegInf | NaN

fun jneg :: "jsnum \<Rightarrow> jsnum" where
  "jneg (Fin a) = Fin (- a)"
| "jneg PosInf = NegInf"
| "jneg NegInf = PosInf"
| "jneg NaN = NaN"

fun jadd :: "jsnum \<Rightarrow> jsnum \<Rightarrow> jsnum" where
  "jadd (Fin a) (Fin b) = Fin (a + b)"
| "jadd NaN _ = NaN"
| "jadd _ NaN = NaN"
| "jadd PosInf NegInf = NaN"
| "jadd NegInf PosInf = NaN"
| "jadd PosInf _ = PosInf"
| "jadd NegInf _ = NegInf"
| "jadd (Fin a) b = b"

definition jsub :: "jsnum \<Rightarrow> jsnum \<Rightarrow> jsnum" where
  "jsub a b = jadd a (jneg b)"

definition jsign :: "real \<Rightarrow> jsnum \<Rightarrow> jsnum" where
  \<comment> \<open>an infinity multiplied by a finite number\<close>
  "jsign s i = (if s = 0 then NaN else if 0 < s then i else jneg i)"

fun jmul :: "jsnum \<Rightarrow> jsnum \<Rightarrow> jsnum" where
  "jmul (Fin a) (Fin b) = Fin (a * b)"
| "jmul NaN _ = NaN"
| "jmul _ NaN = NaN"
| "jmul (Fin a) b = jsign a b"
| "jmul a (Fin b) = jsign b a"
| "jmul PosInf b = b"
| "jmul NegInf b = jneg b"

fun jdiv :: "jsnum \<Rightarrow> jsnum \<Rightarrow> jsnum" where
  "jdiv (Fin a) (Fin b) =
     (if b = 0 then (if a = 0 then NaN else if 0 < a then PosInf else NegInf)
      else Fin (a / b))"
| "jdiv NaN _ = NaN"
| "jdiv _ NaN = NaN"
| "jdiv (Fin a) _ = Fin 0"
| "jdiv a (Fin b) = (if 0 \<le> b then a else jneg a)"
| "jdiv _ _ = NaN"

fun jceil :: "jsnum \<Rightarrow> jsnum" where
  "jceil (Fin a) = Fin (of_int \<lceil>a\<rceil>)"
| "jceil a = a"

fun jle :: "jsnum \<Rightarrow> jsnum \<Rightarrow> bool" where
  "jle NaN _ = False"
| "jle _ NaN = False"
| "jle (Fin a) (Fin b) = (a \<le> b)"
| "jle NegInf _ = True"
| "jle _ PosInf = True"
| "jle _ _ = False"

fun jmin :: "jsnum \<Rightarrow> jsnum \<Rightarrow> jsnum" where
  "jmin NaN _ = NaN"
| "jmin _ NaN = NaN"
| "jmin a b = (if jle a b then a else b)"

fun jmax :: "jsnum \<Rightarrow> jsnum \<Rightarrow> jsnum" where
  "jmax NaN _ = NaN"
| "jmax _ NaN = NaN"
| "jmax a b = (if jle a b then b else a)"

section \<open>Binary64 rounding\<close>

text \<open>
  \<open>pow2 e\<close> is the power of two with the integer exponent \<open>e\<close>, and \<open>floorLog2 x\<close>,
  for a positive \<open>x\<close>, the exponent \<open>e\<close> with \<open>pow2 e \<le> x < pow2 (e + 1)\<close>, computed
  from the bit length of an integer part.
\<close>

definition pow2 :: "int \<Rightarrow> real" where
  "pow2 e = (if 0 \<le> e then 2 ^ nat e else 1 / 2 ^ nat (- e))"

definition floorLog2 :: "real \<Rightarrow> int" where
  "floorLog2 x = (if 1 \<le> x then bitlen \<lfloor>x\<rfloor> - 1 else - bitlen (\<lceil>1 / x\<rceil> - 1))"

definition roundHalfEven :: "real \<Rightarrow> int" where
  \<comment> \<open>the nearest integer, the even one of two that are equally near\<close>
  "roundHalfEven q =
     (let f = \<lfloor>q\<rfloor>; r = q - of_int f
      in if r < 1 / 2 then f else if 1 / 2 < r then f + 1 else if even f then f else f + 1)"

text \<open>
  The spacing of binary64 around \<open>x\<close>: 53 significant bits, and no exponent below
  \<open>-1022\<close>, which gives the subnormal numbers the spacing \<open>pow2 (- 1074)\<close>.
\<close>

definition ulpOf :: "real \<Rightarrow> real" where
  "ulpOf x = pow2 (max (floorLog2 \<bar>x\<bar>) (- 1022) - 52)"

text \<open>
  Rounding to nearest, ties to even: the multiple of the spacing nearest to \<open>x\<close>, and an
  infinity when that multiple reaches \<open>2 ^ 1024\<close>.
\<close>

definition round64 :: "real \<Rightarrow> jsnum" where
  "round64 x =
     (if x = 0 then Fin 0
      else (let r = of_int (roundHalfEven (x / ulpOf x)) * ulpOf x
            in if 2 ^ 1024 \<le> \<bar>r\<bar> then (if 0 < x then PosInf else NegInf) else Fin r))"

fun fl :: "jsnum \<Rightarrow> jsnum" where
  "fl (Fin x) = round64 x"
| "fl v = v"

text \<open>
  The arithmetic of the language: the exact result, rounded. \<open>Fin x\<close> stands for a
  JavaScript number when \<open>x\<close> is a binary64 value; \<open>jsonNumber q\<close> is the number a
  decimal literal of value \<open>q\<close> denotes.
\<close>

definition dadd :: "jsnum \<Rightarrow> jsnum \<Rightarrow> jsnum" where
  "dadd a b = fl (jadd a b)"

definition dsub :: "jsnum \<Rightarrow> jsnum \<Rightarrow> jsnum" where
  "dsub a b = fl (jsub a b)"

definition dmul :: "jsnum \<Rightarrow> jsnum \<Rightarrow> jsnum" where
  "dmul a b = fl (jmul a b)"

definition ddiv :: "jsnum \<Rightarrow> jsnum \<Rightarrow> jsnum" where
  "ddiv a b = fl (jdiv a b)"

definition jsonNumber :: "real \<Rightarrow> jsnum" where
  "jsonNumber q = round64 q"

section \<open>Exceptions\<close>

text \<open>
  A thrown exception is a value. \<open>TypeError\<close> is what the language raises when a
  property of \<^verbatim>\<open>null\<close> or \<^verbatim>\<open>undefined\<close> is read or a non-function is called;
  \<open>SdkError\<close> stands for anything a call into the mapping SDK throws.
\<close>

datatype js_error = TypeError | SdkError

section \<open>Scroll-position tracker\<close>

text \<open>
  A narrative panel, as \<^verbatim>\<open>getPanelHeight\<close> reads it: the two class tests, \<^verbatim>\<open>offsetHeight\<close>
  and the three computed style lengths after \<^verbatim>\<open>parseFloat\<close>. The tracker's sums,
  differences and quotient are written with the exact operations; where the code is
  evaluated below, its numbers are small integers, on which binary64 is exact.
\<close>

record panel =
  isFirst :: bool
  isLast :: bool
  offsetHeight :: real
  marginTop :: real
  marginBottom :: real
  paddingBottom :: real

definition getPanelHeight :: "panel \<Rightarrow> real" where
  "getPanelHeight p =
     (if isFirst p then offsetHeight p - marginTop p
      else if isLast p then offsetHeight p - paddingBottom p
      else offsetHeight p + marginBottom p + marginTop p)"

text \<open>
  The loop of \<^verbatim>\<open>getPanelScrollBounds\<close>. Reading \<^verbatim>\<open>panels[i]\<close> past the end gives
  \<^verbatim>\<open>undefined\<close>, and \<^verbatim>\<open>getPanelHeight(undefined)\<close> throws.
\<close>

function panelStartLoop :: "panel list \<Rightarrow> int \<Rightarrow> nat \<Rightarrow> real \<Rightarrow> js_error + real" where
  "panelStartLoop panels currentSlide i panelStartScroll =
     (if int i < currentSlide then
        (if i < length panels
         then panelStartLoop panels currentSlide (Suc i)
                (panelStartScroll + getPanelHeight (panels ! i))
         else Inl TypeError)
      else Inr panelStartScroll)"
  by pat_completeness auto
termination
  by (relation "measure (\<lambda>(panels, currentSlide, i, acc). nat (currentSlide - int i))") auto

text \<open>
  \<open>dockStartScroll\<close> is \<^verbatim>\<open>null\<close> until the first capture; in the arithmetic of
  \<^verbatim>\<open>getPanelScrollBounds\<close> and \<^verbatim>\<open>getPanelProgress\<close> \<^verbatim>\<open>null\<close> counts as 0.
\<close>

definition nullToNumber :: "real option \<Rightarrow> real" where
  "nullToNumber v = (case v of None \<Rightarrow> 0 | Some x \<Rightarrow> x)"

definition getPanelScrollBounds ::
  "real option \<Rightarrow> panel list \<Rightarrow> int \<Rightarrow> js_error + (real \<times> real)" where
  "getPanelScrollBounds dockStartScroll panels currentSlide =
     (case panelStartLoop panels currentSlide 0 (nullToNumber dockStartScroll) of
        Inl e \<Rightarrow> Inl e
      | Inr panelStartScroll \<Rightarrow>
          (if 0 \<le> currentSlide \<and> nat currentSlide < length panels then
             (let panelHeight = getPanelHeight (panels ! nat currentSlide);
                  panelEndScroll = panelStartScroll + panelHeight
              in Inr (panelStartScroll, panelEndScroll))
           else Inl TypeError))"

definition getPanelProgress ::
  "real option \<Rightarrow> panel list \<Rightarrow> int \<Rightarrow> real \<Rightarrow> js_error + jsnum" where
  "getPanelProgress dockStartScroll panels currentSlide scrollY =
     (case getPanelScrollBounds dockStartScroll panels currentSlide of
        Inl e \<Rightarrow> Inl e
      | Inr (panelStartScroll, panelEndScroll) \<Rightarrow>
          (let progress = jdiv (jsub (Fin scrollY) (Fin panelStartScroll))
                               (jsub (Fin panelEndScroll) (Fin panelStartScroll))
           in Inr (jmax (Fin 0) (jmin (Fin 1) progress))))"

subsection \<open>Module state and its two listeners\<close>

datatype direction = Down | Up

record tracker =
  isDocked :: bool
  dockStartScroll :: "real option"
  lastScrollY :: real
  scrollDirection :: direction
  currentSlide :: int

text \<open>
  The callback of the docking observer: \<open>currentlyDocked\<close> is whether the target has the
  class \<^verbatim>\<open>docked\<close>, \<open>currentScroll\<close> is \<^verbatim>\<open>window.scrollY\<close> at that moment.
\<close>

definition dockingObserver :: "bool \<Rightarrow> real \<Rightarrow> tracker \<Rightarrow> tracker" where
  "dockingObserver currentlyDocked currentScroll s =
     (let s1 = (if currentlyDocked \<and> \<not> isDocked s then
                  (let s' = s\<lparr>isDocked := True\<rparr>
                   in if scrollDirection s' = Down
                      then s'\<lparr>dockStartScroll := Some currentScroll\<rparr> else s')
                else s)
      in if \<not> currentlyDocked \<and> isDocked s1 then s1\<lparr>isDocked := False\<rparr> else s1)"

text \<open>
  The scroll listener. Its first statements update direction and last position:
\<close>

definition trackScroll :: "real \<Rightarrow> tracker \<Rightarrow> tracker" where
  "trackScroll currentScroll s =
     s\<lparr>scrollDirection :=
          (if currentScroll > lastScrollY s then Down
           else if currentScroll < lastScrollY s then Up
           else scrollDirection s),
        lastScrollY := currentScroll\<rparr>"

text \<open>
  Then, when docked with a captured offset and a slide index below the number of panels,
  it posts the progress of the current panel. The result is the new state and what the
  call of \<^verbatim>\<open>getPanelProgress\<close> gave, if it was made.
\<close>

definition scrollListener ::
  "panel list \<Rightarrow> real \<Rightarrow> tracker \<Rightarrow> tracker \<times> (js_error + jsnum) option" where
  "scrollListener panels currentScroll s =
     (let s' = trackScroll currentScroll s
      in if \<not> isDocked s' \<or> dockStartScroll s' = None then (s', None)
         else if currentSlide s' < int (length panels) then
           (s', Some (getPanelProgress (dockStartScroll s') panels (currentSlide s')
                        currentScroll))
         else (s', None))"

text \<open>The tracker as a state machine over the two kinds of event.\<close>

datatype tracker_event = ClassMutation bool real | Scroll "panel list" real

fun trackerStep :: "tracker \<Rightarrow> tracker_event \<Rightarrow> tracker" where
  "trackerStep s (ClassMutation currentlyDocked currentScroll) =
     dockingObserver currentlyDocked currentScroll s"
| "trackerStep s (Scroll panels currentScroll) =
     fst (scrollListener panels currentScroll s)"

definition trackerRun :: "tracker \<Rightarrow> tracker_event list \<Rightarrow> tracker" where
  "trackerRun s evs = foldl trackerStep s evs"

section \<open>Choreography data\<close>

record spatial_reference =
  latestWkid :: "int option"
  wkid :: "int option"

record target_geometry =
  spatialReference :: spatial_reference
  xmin :: jsnum
  ymin :: jsnum
  xmax :: jsnum
  ymax :: jsnum

record viewpoint =
  rotation :: jsnum
  scale :: jsnum
  targetGeometry :: target_geometry

text \<open>
  A time window. \<open>timeSliderStart\<close> and \<open>timeSliderEnd\<close> hold the time values, in
  milliseconds, of \<^verbatim>\<open>new Date(timeSliderStart)\<close> and \<^verbatim>\<open>new Date(timeSliderEnd)\<close>, which
  are integers for a date that parses.
\<close>

record time_window =
  timeSliderStart :: int
  timeSliderEnd :: int
  timeSliderStep :: real
  timeSliderUnit :: string

record layer_visibility =
  layersOn :: "string list option"
  layersOff :: "string list option"

record track_renderer =
  trackLayerName :: string
  trackFieldName :: string

text \<open>
  A slide is an object parsed from JSON: its own keys in the order of \<^verbatim>\<open>Object.keys\<close>,
  each registered key with a value of its schema. \<open>Other k\<close> is a key \<open>k\<close> whose value
  has no schema here; when \<open>k\<close> is a registered key the handlers see \<^verbatim>\<open>null\<close>. The
  keys of an object are distinct; no result below needs that.
\<close>

datatype entry =
    Viewpoint viewpoint
  | TimeSlider time_window
  | LayerVisibility layer_visibility
  | TrackRenderer track_renderer
  | Other string

type_synonym slide = "entry list"

fun key :: "entry \<Rightarrow> string" where
  "key (Viewpoint _) = ''viewpoint''"
| "key (TimeSlider _) = ''timeSlider''"
| "key (LayerVisibility _) = ''layerVisibility''"
| "key (TrackRenderer _) = ''trackRenderer''"
| "key (Other k) = k"

text \<open>Property reads on a slide; \<open>None\<close> is \<^verbatim>\<open>undefined\<close> or \<^verbatim>\<open>null\<close>.\<close>

definition viewpointOf :: "slide \<Rightarrow> viewpoint option" where
  "viewpointOf s =
     (case find (\<lambda>e. key e = ''viewpoint'') s of Some (Viewpoint v) \<Rightarrow> Some v | _ \<Rightarrow> None)"

definition timeSliderOf :: "slide \<Rightarrow> time_window option" where
  "timeSliderOf s =
     (case find (\<lambda>e. key e = ''timeSlider'') s of Some (TimeSlider t) \<Rightarrow> Some t | _ \<Rightarrow> None)"

definition layerVisibilityOf :: "slide \<Rightarrow> layer_visibility option" where
  "layerVisibilityOf s =
     (case find (\<lambda>e. key e = ''layerVisibility'') s of
        Some (LayerVisibility l) \<Rightarrow> Some l | _ \<Rightarrow> None)"

definition trackRendererOf :: "slide \<Rightarrow> track_renderer option" where
  "trackRendererOf s =
     (case find (\<lambda>e. key e = ''trackRenderer'') s of
        Some (TrackRenderer t) \<Rightarrow> Some t | _ \<Rightarrow> None)"

section \<open>Property lookup in an object literal\<close>

text \<open>
  \<^verbatim>\<open>choreographyHandlers[key]\<close> and \<^verbatim>\<open>unitToMs[unit]\<close> read a property of an object
  literal: an own property if there is one, else what the object inherits from
  \<^verbatim>\<open>Object.prototype\<close>. The inherited members are eleven functions and the accessor
  \<^verbatim>\<open>__proto__\<close>, whose value is \<^verbatim>\<open>Object.prototype\<close> itself, an object.
\<close>

definition objectPrototypeFunctions :: "string list" where
  "objectPrototypeFunctions =
     [''constructor'', ''hasOwnProperty'', ''isPrototypeOf'', ''propertyIsEnumerable'',
      ''toLocaleString'', ''toString'', ''valueOf'', ''__defineGetter__'',
      ''__defineSetter__'', ''__lookupGetter__'', ''__lookupSetter__'']"

datatype 'a property = Own 'a | InheritedFunction string | InheritedObject | Absent

definition getProperty :: "(string \<Rightarrow> 'a option) \<Rightarrow> string \<Rightarrow> 'a property" where
  "getProperty own k =
     (case own k of
        Some v \<Rightarrow> Own v
      | None \<Rightarrow>
          if k \<in> set objectPrototypeFunctions then InheritedFunction k
          else if k = ''__proto__'' then InheritedObject
          else Absent)"

text \<open>
  Calling an inherited function with the context object as its only argument. With the
  table as \<^verbatim>\<open>this\<close> (a method call) only \<^verbatim>\<open>__defineGetter__\<close> and \<^verbatim>\<open>__defineSetter__\<close>
  throw, as their second argument is not callable. With \<^verbatim>\<open>this\<close> undefined (a plain
  call) every member that converts \<^verbatim>\<open>this\<close> to an object throws; \<^verbatim>\<open>constructor\<close> and
  \<^verbatim>\<open>toString\<close> do not.
\<close>

definition inheritedCallThrows :: "bool \<Rightarrow> string \<Rightarrow> bool" where
  "inheritedCallThrows thisUndefined name =
     (name \<in> set [''__defineGetter__'', ''__defineSetter__'']
      \<or> (thisUndefined \<and> name \<notin> set [''constructor'', ''toString'']))"

section \<open>The map view, the time slider and the console\<close>

record layer =
  title :: string
  visible :: bool

text \<open>
  A \<^verbatim>\<open>Date\<close> built from a number: the time value is cut to an integer towards zero,
  and is invalid for \<^verbatim>\<open>NaN\<close>, an infinity or beyond 8.64e15 milliseconds.
\<close>

datatype date = Date int | InvalidDate

fun newDate :: "jsnum \<Rightarrow> date" where
  "newDate (Fin t) =
     (if \<bar>t\<bar> > 8640000000000000 then InvalidDate
      else Date (if 0 \<le> t then \<lfloor>t\<rfloor> else \<lceil>t\<rceil>))"
| "newDate _ = InvalidDate"

record time_extent =
  extentStart :: "date option"
  extentEnd :: date

record slider =
  timeExtent :: "time_extent option"
  playing :: bool

text \<open>
  Calls into the mapping SDK. Each call made is recorded, whether it returns or throws;
  which calls throw is a parameter \<open>fails\<close> of the model, since the SDK is not part of
  the sources.
\<close>

datatype sdk_call =
    ViewpointFromJSON "viewpoint option"
  | MapViewGoTo "viewpoint option"
  | TimeSliderStop
  | MapRemove string
  | LayerClone string
  | MapAdd string
  | LayerWhen string

datatype log_entry =
    ErrorProcessing string js_error
  | ErrorSettingTimeSlider js_error
  | FailedToRemoveTrackLayer js_error
  | FailedToAddTrackLayer js_error
  | FailedToSetTrackRenderer js_error

text \<open>
  The state the handlers act on: the record of SDK calls, the layers of
  \<^verbatim>\<open>mapView.map\<close>, the time slider element (\<open>None\<close> when the page has none), what
  \<^verbatim>\<open>console.error\<close> has printed, and \<open>invoked\<close>, the keys for which a dispatcher has
  called the function it found in its table. \<open>invoked\<close> is bookkeeping of the model;
  no handler reads or writes it.
\<close>

record world =
  sdkCalls :: "sdk_call list"
  mapLayers :: "layer list"
  timeSlider :: "slider option"
  consoleErrors :: "log_entry list"
  invoked :: "string list"

text \<open>
  A function body ends by returning a value or by throwing; either way it leaves a
  state behind.
\<close>

datatype js_value = Undefined | DateObject date

datatype outcome = Done js_value world | Threw js_error world

definition andThen :: "outcome \<Rightarrow> (world \<Rightarrow> outcome) \<Rightarrow> outcome" where
  "andThen r f = (case r of Done _ w \<Rightarrow> f w | Threw e w \<Rightarrow> Threw e w)"

definition tryCatch :: "outcome \<Rightarrow> (js_error \<Rightarrow> world \<Rightarrow> outcome) \<Rightarrow> outcome" where
  "tryCatch r h = (case r of Done v w \<Rightarrow> Done v w | Threw e w \<Rightarrow> h e w)"

definition consoleError :: "log_entry \<Rightarrow> world \<Rightarrow> world" where
  "consoleError m w = w\<lparr>consoleErrors := consoleErrors w @ [m]\<rparr>"

definition sdk :: "(sdk_call \<Rightarrow> bool) \<Rightarrow> sdk_call \<Rightarrow> world \<Rightarrow> outcome" where
  "sdk fails c w =
     (let w' = w\<lparr>sdkCalls := sdkCalls w @ [c]\<rparr>
      in if fails c then Threw SdkError w' else Done Undefined w')"

text \<open>\<^verbatim>\<open>Array.prototype.forEach\<close>: a callback that throws ends the loop.\<close>

fun forEach :: "('a \<Rightarrow> world \<Rightarrow> outcome) \<Rightarrow> 'a list \<Rightarrow> world \<Rightarrow> outcome" where
  "forEach f [] w = Done Undefined w"
| "forEach f (x # xs) w = andThen (f x w) (forEach f xs)"

text \<open>
  A dispatcher calling what it found under \<open>k\<close> in its table: a registered handler
  \<open>run h\<close>, an inherited function, or a value that is not callable.
\<close>

definition callEntry ::
  "('h \<Rightarrow> world \<Rightarrow> outcome) \<Rightarrow> bool \<Rightarrow> string \<Rightarrow> 'h property \<Rightarrow> world \<Rightarrow> outcome" where
  "callEntry run thisUndefined k p w =
     (case p of
        Own h \<Rightarrow> run h (w\<lparr>invoked := invoked w @ [k]\<rparr>)
      | InheritedFunction name \<Rightarrow>
          (let w' = w\<lparr>invoked := invoked w @ [k]\<rparr>
           in if inheritedCallThrows thisUndefined name then Threw TypeError w'
              else Done Undefined w')
      | InheritedObject \<Rightarrow> Threw TypeError w
      | Absent \<Rightarrow> Threw TypeError w)"

section \<open>Scroll-linked dispatcher\<close>

text \<open>
  The context object the dispatcher builds. Its \<^verbatim>\<open>mapView\<close> and \<^verbatim>\<open>timeSlider\<close> are
  references to the map view and the slider, which the model keeps in the state.
\<close>

record scroll_context =
  slideCurrent :: slide
  slideNext :: "slide option"
  progress :: real

definition interpolate :: "real \<Rightarrow> jsnum \<Rightarrow> jsnum \<Rightarrow> jsnum" where
  \<comment> \<open>the arrow function of both handlers, with the \<open>progress\<close> it closes over\<close>
  "interpolate p fromVal toVal = dadd fromVal (dmul (dsub toVal fromVal) (Fin p))"

definition interpolatedViewpoint :: "real \<Rightarrow> viewpoint \<Rightarrow> viewpoint \<Rightarrow> viewpoint" where
  \<comment> \<open>the object literal \<open>viewpoint\<close> of \<open>interpolateViewpoint\<close>\<close>
  "interpolatedViewpoint p currentViewpoint nextViewpoint =
     \<lparr>rotation = interpolate p (rotation currentViewpoint) (rotation nextViewpoint),
      scale = interpolate p (scale currentViewpoint) (scale nextViewpoint),
      targetGeometry =
        \<lparr>spatialReference =
           \<lparr>latestWkid = latestWkid (spatialReference (targetGeometry currentViewpoint)),
            wkid = wkid (spatialReference (targetGeometry currentViewpoint))\<rparr>,
         xmin = interpolate p (xmin (targetGeometry currentViewpoint))
                              (xmin (targetGeometry nextViewpoint)),
         ymin = interpolate p (ymin (targetGeometry currentViewpoint))
                              (ymin (targetGeometry nextViewpoint)),
         xmax = interpolate p (xmax (targetGeometry currentViewpoint))
                              (xmax (targetGeometry nextViewpoint)),
         ymax = interpolate p (ymax (targetGeometry currentViewpoint))
                              (ymax (targetGeometry nextViewpoint))\<rparr>\<rparr>"

text \<open>
  \<open>interpolateViewpoint\<close>. The promise \<^verbatim>\<open>goTo\<close> returns, and the \<^verbatim>\<open>catch\<close> attached
  to it, belong to a later turn of the event loop and are not part of the call.
\<close>

definition interpolateViewpoint ::
  "(sdk_call \<Rightarrow> bool) \<Rightarrow> scroll_context \<Rightarrow> world \<Rightarrow> outcome" where
  "interpolateViewpoint fails ctx w =
     (let currentViewpoint = viewpointOf (slideCurrent ctx);
          nextViewpoint = (case slideNext ctx of None \<Rightarrow> None | Some sn \<Rightarrow> viewpointOf sn)
      in case nextViewpoint of
           None \<Rightarrow> Done Undefined w
         | Some n \<Rightarrow>
             (case currentViewpoint of
                None \<Rightarrow> Threw TypeError w
              | Some c \<Rightarrow>
                  (let viewpoint = interpolatedViewpoint (progress ctx) c n
                   in andThen (sdk fails (ViewpointFromJSON (Some viewpoint)) w)
                        (sdk fails (MapViewGoTo (Some viewpoint))))))"

definition unitToMs :: "string \<Rightarrow> real option" where
  "unitToMs unit =
     (if unit = ''milliseconds'' then Some 1
      else if unit = ''seconds'' then Some 1000
      else if unit = ''minutes'' then Some (60 * 1000)
      else if unit = ''hours'' then Some (60 * 60 * 1000)
      else if unit = ''days'' then Some (24 * 60 * 60 * 1000)
      else if unit = ''weeks'' then Some (7 * 24 * 60 * 60 * 1000)
      else if unit = ''months'' then Some (30 * 24 * 60 * 60 * 1000)
      else if unit = ''years'' then Some (365 * 24 * 60 * 60 * 1000)
      else None)"

text \<open>
  The operand \<^verbatim>\<open>(unitToMs[unit] || 0)\<close> as a number: an own entry is its value, a
  missing one is 0, and an inherited function or object is truthy and multiplies to
  \<^verbatim>\<open>NaN\<close>.
\<close>

definition unitFactor :: "string \<Rightarrow> jsnum" where
  "unitFactor unit =
     (case getProperty unitToMs unit of
        Own ms \<Rightarrow> Fin ms
      | InheritedFunction _ \<Rightarrow> NaN
      | InheritedObject \<Rightarrow> NaN
      | Absent \<Rightarrow> Fin 0)"

text \<open>
  The numbers \<open>interpolateTimeSlider\<close> computes on its way, each named after the
  constant of the source that holds it.
\<close>

definition stepMsOf :: "time_window \<Rightarrow> jsnum" where
  "stepMsOf slideTimeData =
     dmul (Fin (timeSliderStep slideTimeData)) (unitFactor (timeSliderUnit slideTimeData))"

definition interpolatedTimeOf :: "time_window \<Rightarrow> real \<Rightarrow> jsnum" where
  "interpolatedTimeOf slideTimeData p =
     interpolate p (Fin (real_of_int (timeSliderStart slideTimeData)))
                   (Fin (real_of_int (timeSliderEnd slideTimeData)))"

definition offsetOf :: "time_window \<Rightarrow> real \<Rightarrow> jsnum" where
  "offsetOf slideTimeData p =
     dsub (interpolatedTimeOf slideTimeData p)
          (Fin (real_of_int (timeSliderStart slideTimeData)))"

definition snappedOffsetOf :: "jsnum \<Rightarrow> jsnum \<Rightarrow> jsnum" where
  "snappedOffsetOf stepMs offset = dmul (jceil (ddiv offset stepMs)) stepMs"

definition clampedTimeOf :: "time_window \<Rightarrow> real \<Rightarrow> jsnum" where
  "clampedTimeOf slideTimeData p =
     (let startTime = Fin (real_of_int (timeSliderStart slideTimeData));
          endTime = Fin (real_of_int (timeSliderEnd slideTimeData));
          stepMs = stepMsOf slideTimeData;
          offset = offsetOf slideTimeData p;
          snappedOffset = snappedOffsetOf stepMs offset;
          snappedTime = dadd startTime snappedOffset
      in jmin (jmax snappedTime startTime) endTime)"

definition timeSliderStop :: "(sdk_call \<Rightarrow> bool) \<Rightarrow> world \<Rightarrow> outcome" where
  "timeSliderStop fails w =
     andThen (sdk fails TimeSliderStop w)
       (\<lambda>w. Done Undefined
               (w\<lparr>timeSlider := map_option (\<lambda>sl. sl\<lparr>playing := False\<rparr>) (timeSlider w)\<rparr>))"

text \<open>
  \<open>interpolateTimeSlider\<close>: the body of its \<^verbatim>\<open>try\<close>, then the function with its
  \<^verbatim>\<open>catch\<close>.
\<close>

definition interpolateTimeSliderBody ::
  "(sdk_call \<Rightarrow> bool) \<Rightarrow> scroll_context \<Rightarrow> world \<Rightarrow> outcome" where
  "interpolateTimeSliderBody fails ctx w =
     (case timeSliderOf (slideCurrent ctx) of
        None \<Rightarrow> Threw TypeError w
      | Some slideTimeData \<Rightarrow>
          (let endTime = Fin (real_of_int (timeSliderEnd slideTimeData));
               interpolatedTime = interpolatedTimeOf slideTimeData (progress ctx);
               stepMs = stepMsOf slideTimeData
           in if jle stepMs (Fin 0)
              then Done (DateObject (newDate (jmin interpolatedTime endTime))) w
              else
                (let clampedTime = clampedTimeOf slideTimeData (progress ctx)
                 in case timeSlider w of
                      None \<Rightarrow> Threw TypeError w
                    | Some sl \<Rightarrow>
                        timeSliderStop fails
                          (w\<lparr>timeSlider :=
                               Some (sl\<lparr>timeExtent :=
                                          Some \<lparr>extentStart = None,
                                                extentEnd = newDate clampedTime\<rparr>\<rparr>)\<rparr>))))"

definition interpolateTimeSlider ::
  "(sdk_call \<Rightarrow> bool) \<Rightarrow> scroll_context \<Rightarrow> world \<Rightarrow> outcome" where
  "interpolateTimeSlider fails ctx w =
     tryCatch (interpolateTimeSliderBody fails ctx w)
       (\<lambda>error w. Done Undefined (consoleError (ErrorSettingTimeSlider error) w))"

datatype scroll_handler = InterpolateViewpoint | InterpolateTimeSlider

definition scrollHandlers :: "string \<Rightarrow> scroll_handler option" where
  \<comment> \<open>the own properties of \<open>choreographyHandlers\<close> in the scroll animator\<close>
  "scrollHandlers k =
     (if k = ''viewpoint'' then Some InterpolateViewpoint
      else if k = ''timeSlider'' then Some InterpolateTimeSlider
      else None)"

fun runScrollHandler ::
  "(sdk_call \<Rightarrow> bool) \<Rightarrow> scroll_context \<Rightarrow> scroll_handler \<Rightarrow> world \<Rightarrow> outcome" where
  "runScrollHandler fails ctx InterpolateViewpoint = interpolateViewpoint fails ctx"
| "runScrollHandler fails ctx InterpolateTimeSlider = interpolateTimeSlider fails ctx"

fun isFunction :: "'a property \<Rightarrow> bool" where
  \<comment> \<open>\<^verbatim>\<open>typeof p === "function"\<close>; every own entry of a handler table is a function\<close>
  "isFunction (Own _) = True"
| "isFunction (InheritedFunction _) = True"
| "isFunction InheritedObject = False"
| "isFunction Absent = False"

text \<open>The callback of \<^verbatim>\<open>forEach\<close>: the handler call in its \<^verbatim>\<open>try\<close>.\<close>

definition scrollAnimationCallback ::
  "(sdk_call \<Rightarrow> bool) \<Rightarrow> scroll_context \<Rightarrow> string \<Rightarrow> world \<Rightarrow> outcome" where
  "scrollAnimationCallback fails ctx k w =
     andThen
       (tryCatch
          (callEntry (runScrollHandler fails ctx) False k (getProperty scrollHandlers k) w)
          (\<lambda>error w. Done Undefined (consoleError (ErrorProcessing k error) w)))
       (Done Undefined)"

definition scrollAnimation ::
  "(sdk_call \<Rightarrow> bool) \<Rightarrow> slide \<Rightarrow> slide option \<Rightarrow> real \<Rightarrow> world \<Rightarrow> outcome" where
  "scrollAnimation fails current next p w =
     (let ctx = \<lparr>slideCurrent = current, slideNext = next, progress = p\<rparr>
      in forEach (scrollAnimationCallback fails ctx)
           (filter (\<lambda>k. isFunction (getProperty scrollHandlers k)) (map key current))
           w)"

section \<open>Discrete slide-change dispatcher\<close>

text \<open>The context object of this dispatcher, again without the two references.\<close>

record slide_context =
  slideData :: slide
  embedded :: bool

text \<open>\<open>toggleViewpoint\<close>; the promise of \<^verbatim>\<open>goTo\<close> is again left to a later turn.\<close>

definition toggleViewpoint ::
  "(sdk_call \<Rightarrow> bool) \<Rightarrow> slide_context \<Rightarrow> world \<Rightarrow> outcome" where
  "toggleViewpoint fails ctx w =
     andThen (sdk fails (ViewpointFromJSON (viewpointOf (slideData ctx))) w)
       (sdk fails (MapViewGoTo (viewpointOf (slideData ctx))))"

definition toggleTimeSlider ::
  "(sdk_call \<Rightarrow> bool) \<Rightarrow> slide_context \<Rightarrow> world \<Rightarrow> outcome" where
  \<comment> \<open>the body is a comment\<close>
  "toggleTimeSlider fails ctx w = Done Undefined w"

definition setLayerVisibility :: "string list option \<Rightarrow> bool \<Rightarrow> layer list \<Rightarrow> layer list" where
  "setLayerVisibility layerNames visibility layers =
     (case layerNames of
        None \<Rightarrow> layers
      | Some names \<Rightarrow>
          if length names > 0
          then map (\<lambda>mapLayer. if title mapLayer \<in> set names
                                then mapLayer\<lparr>visible := visibility\<rparr> else mapLayer) layers
          else layers)"

definition toggleLayerVisibility ::
  "(sdk_call \<Rightarrow> bool) \<Rightarrow> slide_context \<Rightarrow> world \<Rightarrow> outcome" where
  "toggleLayerVisibility fails ctx w =
     (case layerVisibilityOf (slideData ctx) of
        None \<Rightarrow> Threw TypeError w
      | Some lv \<Rightarrow>
          Done Undefined
            (w\<lparr>mapLayers :=
                 setLayerVisibility (layersOff lv) False
                   (setLayerVisibility (layersOn lv) True (mapLayers w))\<rparr>))"

fun removeFirst :: "('a \<Rightarrow> bool) \<Rightarrow> 'a list \<Rightarrow> 'a list" where
  "removeFirst P [] = []"
| "removeFirst P (x # xs) = (if P x then xs else x # removeFirst P xs)"

text \<open>
  \<open>applyTrackRenderer\<close> is an \<^verbatim>\<open>async\<close> function: the call runs its body up to the
  first \<^verbatim>\<open>await\<close> and returns a promise; what follows \<^verbatim>\<open>await trackLayer.when()\<close>
  runs in a later turn and is not part of the call. The whole body sits in a \<^verbatim>\<open>try\<close>,
  the removal and the re-insertion of the layer each in one of their own.
\<close>

definition applyTrackRendererBody ::
  "(sdk_call \<Rightarrow> bool) \<Rightarrow> track_renderer option \<Rightarrow> time_window option \<Rightarrow> world \<Rightarrow> outcome"
  where
  "applyTrackRendererBody fails trackRenderer trackTimeConfig w =
     (case trackRenderer of
        None \<Rightarrow> Threw TypeError w
      | Some tr \<Rightarrow>
          (case trackTimeConfig of
             None \<Rightarrow> Threw TypeError w
           | Some _ \<Rightarrow>
               (case find (\<lambda>layer. title layer = trackLayerName tr) (mapLayers w) of
                  None \<Rightarrow> Done Undefined w
                | Some trackLayer \<Rightarrow>
                    andThen
                      (tryCatch
                         (andThen (sdk fails (MapRemove (title trackLayer)) w)
                            (\<lambda>w. Done Undefined
                                    (w\<lparr>mapLayers :=
                                         removeFirst (\<lambda>layer. title layer = trackLayerName tr)
                                           (mapLayers w)\<rparr>)))
                         (\<lambda>error w. Done Undefined
                                        (consoleError (FailedToRemoveTrackLayer error) w)))
                      (\<lambda>w. andThen (sdk fails (LayerClone (title trackLayer)) w)
                         (\<lambda>w. andThen
                            (tryCatch
                               (andThen (sdk fails (MapAdd (title trackLayer)) w)
                                  (\<lambda>w. Done Undefined
                                          (w\<lparr>mapLayers := mapLayers w @ [trackLayer]\<rparr>)))
                               (\<lambda>error w. Done Undefined
                                              (consoleError (FailedToAddTrackLayer error) w)))
                            (sdk fails (LayerWhen (title trackLayer))))))))"

definition toggleTrackRenderer ::
  "(sdk_call \<Rightarrow> bool) \<Rightarrow> slide_context \<Rightarrow> world \<Rightarrow> outcome" where
  "toggleTrackRenderer fails ctx w =
     tryCatch
       (applyTrackRendererBody fails (trackRendererOf (slideData ctx))
          (timeSliderOf (slideData ctx)) w)
       (\<lambda>error w. Done Undefined (consoleError (FailedToSetTrackRenderer error) w))"

datatype slide_handler =
  ToggleViewpoint | ToggleTimeSlider | ToggleLayerVisibility | ToggleTrackRenderer

definition slideHandlers :: "string \<Rightarrow> slide_handler option" where
  \<comment> \<open>the own properties of \<open>choreographyHandlers\<close> in the slide animator\<close>
  "slideHandlers k =
     (if k = ''viewpoint'' then Some ToggleViewpoint
      else if k = ''timeSlider'' then Some ToggleTimeSlider
      else if k = ''layerVisibility'' then Some ToggleLayerVisibility
      else if k = ''trackRenderer'' then Some ToggleTrackRenderer
      else None)"

fun runSlideHandler ::
  "(sdk_call \<Rightarrow> bool) \<Rightarrow> slide_context \<Rightarrow> slide_handler \<Rightarrow> world \<Rightarrow> outcome" where
  "runSlideHandler fails ctx ToggleViewpoint = toggleViewpoint fails ctx"
| "runSlideHandler fails ctx ToggleTimeSlider = toggleTimeSlider fails ctx"
| "runSlideHandler fails ctx ToggleLayerVisibility = toggleLayerVisibility fails ctx"
| "runSlideHandler fails ctx ToggleTrackRenderer = toggleTrackRenderer fails ctx"

definition NON_EMBED_EXCLUDE_KEYS :: "string set" where
  "NON_EMBED_EXCLUDE_KEYS = {''viewpoint'', ''timeSlider''}"

definition slideAnimationCallback ::
  "(sdk_call \<Rightarrow> bool) \<Rightarrow> slide_context \<Rightarrow> string \<Rightarrow> world \<Rightarrow> outcome" where
  "slideAnimationCallback fails ctx k w =
     (let handler = getProperty slideHandlers k
      in if handler = Absent then Done Undefined w
         else if embedded ctx \<and> k \<in> NON_EMBED_EXCLUDE_KEYS then Done Undefined w
         else andThen
                (tryCatch
                   (callEntry (runSlideHandler fails ctx) True k handler w)
                   (\<lambda>error w. Done Undefined (consoleError (ErrorProcessing k error) w)))
                (Done Undefined))"

definition slideAnimation ::
  "(sdk_call \<Rightarrow> bool) \<Rightarrow> slide \<Rightarrow> bool \<Rightarrow> world \<Rightarrow> outcome" where
  "slideAnimation fails data emb w =
     (let ctx = \<lparr>slideData = data, embedded = emb\<rparr>
      in forEach (slideAnimationCallback fails ctx) (map key data) w)"

section \<open>Notions used in the statements\<close>

fun worldOf :: "outcome \<Rightarrow> world" where
  \<comment> \<open>the state a call leaves behind, however it ends\<close>
  "worldOf (Done _ w) = w"
| "worldOf (Threw _ w) = w"

definition panelStart :: "real option \<Rightarrow> panel list \<Rightarrow> nat \<Rightarrow> real" where
  \<comment> \<open>the dock-start offset plus the heights of the panels before the \<open>n\<close>-th\<close>
  "panelStart d ps n = nullToNumber d + sum_list (map getPanelHeight (take n ps))"

definition isDouble :: "real \<Rightarrow> bool" where
  \<comment> \<open>\<open>x\<close> is a finite binary64 value: rounding leaves it as it is\<close>
  "isDouble x \<longleftrightarrow> round64 x = Fin x"


definition namesOf :: "string list option \<Rightarrow> string set" where
  \<comment> \<open>the titles a \<^verbatim>\<open>layersOn\<close> or \<^verbatim>\<open>layersOff\<close> field lists; none when it is missing\<close>
  "namesOf layerNames = (case layerNames of None \<Rightarrow> {} | Some names \<Rightarrow> set names)"

fun isCameraCall :: "sdk_call \<Rightarrow> bool" where
  "isCameraCall (ViewpointFromJSON _) = True"
| "isCameraCall (MapViewGoTo _) = True"
| "isCameraCall _ = False"

definition cameraCalls :: "world \<Rightarrow> sdk_call list" where
  "cameraCalls w = filter isCameraCall (sdkCalls w)"

subsection \<open>Example inputs\<close>

definition pageWorld :: world where
  \<comment> \<open>a page with three layers and a time slider that is playing\<close>
  "pageWorld =
     \<lparr>sdkCalls = [],
      mapLayers = [\<lparr>title = ''tracks'', visible = False\<rparr>,
                   \<lparr>title = ''ports'', visible = True\<rparr>,
                   \<lparr>title = ''labels'', visible = True\<rparr>],
      timeSlider = Some \<lparr>timeExtent = None, playing = True\<rparr>,
      consoleErrors = [],
      invoked = []\<rparr>"

definition viewpointA :: viewpoint where
  "viewpointA =
     \<lparr>rotation = Fin 0, scale = Fin 1000,
      targetGeometry =
        \<lparr>spatialReference = \<lparr>latestWkid = Some 3857, wkid = Some 102100\<rparr>,
         xmin = Fin (- 100), ymin = Fin 0, xmax = Fin 100, ymax = Fin 80\<rparr>\<rparr>"

definition viewpointB :: viewpoint where
  "viewpointB =
     \<lparr>rotation = Fin 90, scale = Fin 5000,
      targetGeometry =
        \<lparr>spatialReference = \<lparr>latestWkid = Some 4326, wkid = Some 4326\<rparr>,
         xmin = Fin 300, ymin = Fin 40, xmax = Fin 700, ymax = Fin 200\<rparr>\<rparr>"

definition windowOf :: "real \<Rightarrow> string \<Rightarrow> time_window" where
  \<comment> \<open>ten seconds from the epoch, with the given step\<close>
  "windowOf step unit =
     \<lparr>timeSliderStart = 0, timeSliderEnd = 10000,
      timeSliderStep = step, timeSliderUnit = unit\<rparr>"

fun goToFails :: "sdk_call \<Rightarrow> bool" where
  \<comment> \<open>an SDK whose \<^verbatim>\<open>goTo\<close> throws\<close>
  "goToFails (MapViewGoTo _) = True"
| "goToFails _ = False"

definition noFailure :: "sdk_call \<Rightarrow> bool" where
  "noFailure c = False"

definition openingPanel :: panel where
  \<comment> \<open>a first panel, 400 high once its top margin is taken off\<close>
  "openingPanel =
     \<lparr>isFirst = True, isLast = False, offsetHeight = 600, marginTop = 200,
      marginBottom = 0, paddingBottom = 0\<rparr>"

definition hiddenPanel :: panel where
  \<comment> \<open>a middle panel that takes no room: not displayed, or empty with no margins\<close>
  "hiddenPanel =
     \<lparr>isFirst = False, isLast = False, offsetHeight = 0, marginTop = 0,
      marginBottom = 0, paddingBottom = 0\<rparr>"

definition freshTracker :: tracker where
  "freshTracker =
     \<lparr>isDocked = False, dockStartScroll = None, lastScrollY = 0,
      scrollDirection = Down, currentSlide = 0\<rparr>"

section \<open>Binary64 rounding: results\<close>

lemma pow2_powr: "pow2 e = 2 powr (real_of_int e)"
proof (cases "0 \<le> e")
  case True
  then have "2 powr (real_of_int e) = 2 powr (real (nat e))" by simp
  also have "\<dots> = 2 ^ nat e" by (simp add: powr_realpow)
  finally show ?thesis using True by (simp add: pow2_def)
next
  case False
  then have "2 powr (real_of_int e) = 2 powr (- real (nat (- e)))" by simp
  also have "\<dots> = 1 / 2 powr (real (nat (- e)))" by (simp add: powr_minus divide_inverse)
  also have "\<dots> = 1 / 2 ^ nat (- e)" by (simp add: powr_realpow)
  finally show ?thesis using False by (simp add: pow2_def)
qed

lemma pow2_pos: "0 < pow2 e"
  by (simp add: pow2_powr)


lemma pow2_less_iff: "pow2 a < pow2 b \<longleftrightarrow> a < b"
  by (simp add: pow2_powr)


lemma ulpOf_pos: "0 < ulpOf x"
  by (simp add: ulpOf_def pow2_pos)

lemma roundHalfEven_near: "\<bar>real_of_int (roundHalfEven q) - q\<bar> \<le> 1 / 2"
proof -
  define f where "f = \<lfloor>q\<rfloor>"
  have b: "real_of_int f \<le> q" "q < real_of_int f + 1" unfolding f_def by linarith+
  have "roundHalfEven q =
      (if q - real_of_int f < 1 / 2 then f
       else if 1 / 2 < q - real_of_int f then f + 1 else if even f then f else f + 1)"
    by (simp add: roundHalfEven_def Let_def f_def)
  with b show ?thesis by (auto simp add: abs_if)
qed

lemma scaled_distance:
  fixes k x u :: real
  assumes "0 < u"
  shows "\<bar>k - x / u\<bar> * u = \<bar>k * u - x\<bar>"
proof -
  from assms have "k * u - x = (k - x / u) * u" by (simp add: field_simps)
  then have "\<bar>k * u - x\<bar> = \<bar>k - x / u\<bar> * \<bar>u\<bar>" by (simp only: abs_mult)
  with assms show ?thesis by simp
qed

text \<open>Rounding moves a number by at most half the spacing, unless it overflows.\<close>

lemma round64_near:
  assumes "round64 x = Fin r"
  shows "\<bar>r - x\<bar> \<le> ulpOf x / 2"
proof (cases "x = 0")
  case True
  with assms show ?thesis using ulpOf_pos [of x] by (simp add: round64_def)
next
  case False
  let ?u = "ulpOf x"
  let ?k = "real_of_int (roundHalfEven (x / ?u))"
  from assms False have r: "r = ?k * ?u"
    by (simp add: round64_def Let_def split: if_splits)
  have "\<bar>?k - x / ?u\<bar> \<le> 1 / 2" by (rule roundHalfEven_near)
  then have "\<bar>?k - x / ?u\<bar> * ?u \<le> 1 / 2 * ?u"
    using ulpOf_pos [of x] by (simp only: mult_right_mono less_imp_le)
  moreover have "\<bar>?k - x / ?u\<bar> * ?u = \<bar>?k * ?u - x\<bar>"
    using ulpOf_pos [of x] by (rule scaled_distance)
  ultimately show ?thesis using r by simp
qed

lemma round64_not_NaN: "round64 x \<noteq> NaN"
  by (simp add: round64_def Let_def)










section \<open>The scroll-position tracker: results\<close>

lemma panelStartLoop_sum:
  "c \<le> int (length ps) \<Longrightarrow>
   panelStartLoop ps c i acc =
     Inr (acc + sum_list (map getPanelHeight (drop i (take (nat c) ps))))"
proof (induction ps c i acc rule: panelStartLoop.induct)
  case (1 panels currentSlide i panelStartScroll)
  show ?case
  proof (cases "int i < currentSlide")
    case True
    with "1.prems" have len: "i < length panels" by linarith
    from True len have il: "i < length (take (nat currentSlide) panels)" by simp
    have split: "drop i (take (nat currentSlide) panels) =
        panels ! i # drop (Suc i) (take (nat currentSlide) panels)"
      using Cons_nth_drop_Suc [OF il] il True by simp
    show ?thesis
      using True len "1.IH" [OF True len "1.prems"]
      by (subst panelStartLoop.simps) (simp add: split)
  next
    case False
    then show ?thesis
      by (subst panelStartLoop.simps) simp
  qed
qed

text \<open>For a slide index inside the panel list the bounds exist, and they are one panel apart.\<close>

lemma getPanelScrollBounds_valid:
  assumes "0 \<le> c" "nat c < length ps"
  shows "getPanelScrollBounds d ps c =
           Inr (panelStart d ps (nat c), panelStart d ps (nat c) + getPanelHeight (ps ! nat c))"
proof -
  from assms have "c \<le> int (length ps)" by linarith
  from panelStartLoop_sum [OF this, of 0 "nullToNumber d"] assms
  show ?thesis by (simp add: getPanelScrollBounds_def panelStart_def Let_def)
qed

lemma getPanelProgress_valid:
  assumes "0 \<le> c" "nat c < length ps"
  shows "getPanelProgress d ps c y =
           Inr (jmax (Fin 0) (jmin (Fin 1)
                  (jdiv (Fin (y - panelStart d ps (nat c))) (Fin (getPanelHeight (ps ! nat c))))))"
  using getPanelScrollBounds_valid [OF assms, of d]
  by (simp add: getPanelProgress_def jsub_def Let_def)

text \<open>
  Over a panel of non-zero height the progress is the quotient clamped to the unit
  interval, whatever the scroll position.
\<close>

lemma getPanelProgress_nonzero_height:
  assumes "0 \<le> c" "nat c < length ps" "getPanelHeight (ps ! nat c) \<noteq> 0"
  shows "getPanelProgress d ps c y =
           Inr (Fin (max 0 (min 1 ((y - panelStart d ps (nat c)) / getPanelHeight (ps ! nat c)))))"
  using assms(3) by (simp add: getPanelProgress_valid [OF assms(1,2)] max_def min_def)

text \<open>Over a panel of height zero the quotient is an infinity or \<^verbatim>\<open>NaN\<close>.\<close>

lemma getPanelProgress_zero_height:
  assumes "0 \<le> c" "nat c < length ps" "getPanelHeight (ps ! nat c) = 0"
  shows "getPanelProgress d ps c y =
           Inr (if y = panelStart d ps (nat c) then NaN
                else if panelStart d ps (nat c) < y then Fin 1 else Fin 0)"
  using assms(3) by (simp add: getPanelProgress_valid [OF assms(1,2)])

text \<open>
  Claim C4 says that \<open>getPanelProgress\<close> returns the quotient
  \<open>(scrollY - panelStartScroll) / (panelEndScroll - panelStartScroll)\<close> clamped into
  \<open>[0,1]\<close> for every scroll position and every valid slide index. The code does not:
  for a panel whose height is zero and a scroll position equal to the panel's start the
  quotient is \<^verbatim>\<open>0/0\<close>, and \<^verbatim>\<open>Math.min\<close> and \<^verbatim>\<open>Math.max\<close> hand \<^verbatim>\<open>NaN\<close> through. The
  theorem evaluates the code there: docked at scroll position 500, a first panel of
  height 400, then a panel of height 0 as slide 1, read at scroll position 900.
\<close>

theorem getPanelProgress_zero_height_panel_NaN:
  "getPanelHeight hiddenPanel = 0 \<and>
   getPanelScrollBounds (Some 500) [openingPanel, hiddenPanel] 1 = Inr (900, 900) \<and>
   getPanelProgress (Some 500) [openingPanel, hiddenPanel] 1 900 = Inr NaN"
  by (simp add: getPanelProgress_valid getPanelScrollBounds_valid panelStart_def
        nullToNumber_def getPanelHeight_def openingPanel_def hiddenPanel_def)

text \<open>
  The same input reached through the listeners: docking at 500 while scrolling down,
  then, with slide 1 current, a scroll event at 900.
\<close>

lemma scrollListener_posts_NaN:
  "snd (scrollListener [openingPanel, hiddenPanel] 900
          ((dockingObserver True 500 freshTracker)\<lparr>currentSlide := 1\<rparr>)) = Some (Inr NaN)"
  by (simp add: scrollListener_def trackScroll_def dockingObserver_def freshTracker_def Let_def
        getPanelProgress_valid panelStart_def nullToNumber_def getPanelHeight_def
        openingPanel_def hiddenPanel_def)

lemma dockingObserver_dockStart:
  "dockStartScroll (dockingObserver currentlyDocked currentScroll s) =
     (if currentlyDocked \<and> \<not> isDocked s \<and> scrollDirection s = Down
      then Some currentScroll else dockStartScroll s)"
  by (simp add: dockingObserver_def Let_def)

lemma dockingObserver_isDocked:
  "isDocked (dockingObserver currentlyDocked currentScroll s) = currentlyDocked"
  by (auto simp add: dockingObserver_def Let_def)

lemma scrollListener_dockStart:
  "dockStartScroll (fst (scrollListener panels currentScroll s)) = dockStartScroll s"
  by (simp add: scrollListener_def trackScroll_def Let_def)

lemma trackerRun_snoc: "trackerRun s (evs @ [ev]) = trackerStep (trackerRun s evs) ev"
  by (simp add: trackerRun_def)

text \<open>
  Claim C7: in the docking observer's step relation the dock-start offset is assigned
  the current scroll position only on a transition from undocked to docked while the
  tracked direction is down; a docking transition while the direction is up leaves it
  unchanged, and so does every other event. This holds after every sequence of events:
  \<open>evs\<close> is any history, \<open>ev\<close> the next event.
\<close>

theorem dockStartScroll_captured_only_docking_down:
  "dockStartScroll (trackerRun s (evs @ [ev])) =
     (case ev of
        ClassMutation currentlyDocked currentScroll \<Rightarrow>
          if currentlyDocked \<and> \<not> isDocked (trackerRun s evs)
             \<and> scrollDirection (trackerRun s evs) = Down
          then Some currentScroll
          else dockStartScroll (trackerRun s evs)
      | Scroll panels currentScroll \<Rightarrow> dockStartScroll (trackerRun s evs))"
  by (cases ev) (simp_all add: trackerRun_snoc dockingObserver_dockStart scrollListener_dockStart)

text \<open>
  A history for C7: scrolling down to 100 and docking there captures 100; scrolling up
  to 50, undocking, and docking again at 40 while the direction is up keeps 100.
\<close>

theorem dockStartScroll_captured_only_docking_down_witness:
  "dockStartScroll (trackerRun freshTracker [Scroll [] 100, ClassMutation True 100]) = Some 100 \<and>
   scrollDirection (trackerRun freshTracker
      [Scroll [] 100, ClassMutation True 100, Scroll [] 50, ClassMutation False 50]) = Up \<and>
   dockStartScroll (trackerRun freshTracker
      [Scroll [] 100, ClassMutation True 100, Scroll [] 50, ClassMutation False 50,
       ClassMutation True 40]) = Some 100"
  using dockStartScroll_captured_only_docking_down
          [of freshTracker "[Scroll [] 100]" "ClassMutation True 100"]
        dockStartScroll_captured_only_docking_down
          [of freshTracker
              "[Scroll [] 100, ClassMutation True 100, Scroll [] 50, ClassMutation False 50]"
              "ClassMutation True 40"]
  by (simp add: trackerRun_def scrollListener_def trackScroll_def dockingObserver_def
        freshTracker_def Let_def)



section \<open>The interpolating handlers: results\<close>

text \<open>The definitions that evaluate a rounding at a given number.\<close>

lemmas binary64_eval =
  round64_def ulpOf_def floorLog2_def pow2_def roundHalfEven_def compute_bitlen
  dadd_def dsub_def dmul_def ddiv_def jsub_def jsign_def jsonNumber_def Let_def

text \<open>
  Claim C1 says that each of rotation, scale, xmin, ymin, xmax and ymax is
  \<open>a + (b - a) * p\<close>, equal to the current value at \<open>p = 0\<close> and to the next value at
  \<open>p = 1\<close>. In binary64 the second endpoint is not reached in general: the difference
  \<open>b - a\<close> is rounded, and so is the sum. From a rotation of 45.3 to one of 12.7 the
  blend at \<open>p = 1\<close> is 12.700000000000003.
\<close>

theorem interpolateViewpoint_endpoint_counterexample:
  "jsonNumber (453 / 10) = Fin (3187704111248179 / 70368744177664) \<and>
   jsonNumber (127 / 10) = Fin (3574732204225331 / 281474976710656) \<and>
   rotation (interpolatedViewpoint 1 (viewpointA\<lparr>rotation := jsonNumber (453 / 10)\<rparr>)
                                     (viewpointB\<lparr>rotation := jsonNumber (127 / 10)\<rparr>))
     = Fin (893683051056333 / 70368744177664) \<and>
   rotation (interpolatedViewpoint 1 (viewpointA\<lparr>rotation := jsonNumber (453 / 10)\<rparr>)
                                     (viewpointB\<lparr>rotation := jsonNumber (127 / 10)\<rparr>))
     \<noteq> rotation (viewpointB\<lparr>rotation := jsonNumber (127 / 10)\<rparr>)"
  by (simp add: interpolatedViewpoint_def interpolate_def binary64_eval)

text \<open>
  Claim C1 as amended: for viewpoint descriptors \<open>c\<close> (current) and \<open>n\<close> (next) and a
  progress \<open>p\<close>, \<open>interpolateViewpoint\<close> hands the SDK a viewpoint whose rotation,
  scale, xmin, ymin, xmax and ymax are each the binary64 value of \<open>a + (b - a) * p\<close>,
  every operation rounded, and whose spatial reference is the current viewpoint's. At
  \<open>p = 0\<close> the blend of two finite numbers is the current value \<open>x\<close>, provided
  \<open>y - x\<close> does not overflow; at \<open>p = 1\<close> it is the next value \<open>y\<close>, provided the
  difference \<open>y - x\<close> is itself a binary64 value.
\<close>

theorem interpolateViewpoint_binary64_blend:
  assumes "viewpointOf current = Some c" and "viewpointOf next = Some n"
    and "\<not> fails (ViewpointFromJSON (Some (interpolatedViewpoint p c n)))"
    and "\<not> fails (MapViewGoTo (Some (interpolatedViewpoint p c n)))"
  shows
    "interpolateViewpoint fails \<lparr>slideCurrent = current, slideNext = Some next, progress = p\<rparr> w
       = Done Undefined
           (w\<lparr>sdkCalls := sdkCalls w @
                 [ViewpointFromJSON (Some (interpolatedViewpoint p c n)),
                  MapViewGoTo (Some (interpolatedViewpoint p c n))]\<rparr>) \<and>
     rotation (interpolatedViewpoint p c n) =
       dadd (rotation c) (dmul (dsub (rotation n) (rotation c)) (Fin p)) \<and>
     scale (interpolatedViewpoint p c n) =
       dadd (scale c) (dmul (dsub (scale n) (scale c)) (Fin p)) \<and>
     xmin (targetGeometry (interpolatedViewpoint p c n)) =
       dadd (xmin (targetGeometry c))
            (dmul (dsub (xmin (targetGeometry n)) (xmin (targetGeometry c))) (Fin p)) \<and>
     ymin (targetGeometry (interpolatedViewpoint p c n)) =
       dadd (ymin (targetGeometry c))
            (dmul (dsub (ymin (targetGeometry n)) (ymin (targetGeometry c))) (Fin p)) \<and>
     xmax (targetGeometry (interpolatedViewpoint p c n)) =
       dadd (xmax (targetGeometry c))
            (dmul (dsub (xmax (targetGeometry n)) (xmax (targetGeometry c))) (Fin p)) \<and>
     ymax (targetGeometry (interpolatedViewpoint p c n)) =
       dadd (ymax (targetGeometry c))
            (dmul (dsub (ymax (targetGeometry n)) (ymax (targetGeometry c))) (Fin p)) \<and>
     spatialReference (targetGeometry (interpolatedViewpoint p c n)) =
       spatialReference (targetGeometry c) \<and>
     (isDouble x \<and> dsub (Fin y) (Fin x) \<noteq> PosInf \<and> dsub (Fin y) (Fin x) \<noteq> NegInf
        \<longrightarrow> dadd (Fin x) (dmul (dsub (Fin y) (Fin x)) (Fin 0)) = Fin x) \<and>
     (isDouble y \<and> isDouble (y - x)
        \<longrightarrow> dadd (Fin x) (dmul (dsub (Fin y) (Fin x)) (Fin 1)) = Fin y)"
proof (intro conjI impI)
  show "interpolateViewpoint fails \<lparr>slideCurrent = current, slideNext = Some next, progress = p\<rparr> w
       = Done Undefined
           (w\<lparr>sdkCalls := sdkCalls w @
                 [ViewpointFromJSON (Some (interpolatedViewpoint p c n)),
                  MapViewGoTo (Some (interpolatedViewpoint p c n))]\<rparr>)"
    using assms by (simp add: interpolateViewpoint_def Let_def sdk_def andThen_def)
next
  assume h: "isDouble x \<and> dsub (Fin y) (Fin x) \<noteq> PosInf \<and> dsub (Fin y) (Fin x) \<noteq> NegInf"
  have "dsub (Fin y) (Fin x) \<noteq> NaN"
    by (simp add: dsub_def jsub_def round64_not_NaN)
  with h obtain d where d: "dsub (Fin y) (Fin x) = Fin d"
    by (cases "dsub (Fin y) (Fin x)") simp_all
  have "dmul (Fin d) (Fin 0) = Fin 0" by (simp add: dmul_def round64_def)
  with d h show "dadd (Fin x) (dmul (dsub (Fin y) (Fin x)) (Fin 0)) = Fin x"
    by (simp add: dadd_def isDouble_def)
next
  assume h: "isDouble y \<and> isDouble (y - x)"
  then have d: "dsub (Fin y) (Fin x) = Fin (y - x)"
    by (simp add: dsub_def jsub_def isDouble_def)
  from h have "dmul (Fin (y - x)) (Fin 1) = Fin (y - x)"
    by (simp add: dmul_def isDouble_def)
  with d h show "dadd (Fin x) (dmul (dsub (Fin y) (Fin x)) (Fin 1)) = Fin y"
    by (simp add: dadd_def isDouble_def)
qed (simp_all add: interpolatedViewpoint_def interpolate_def)

text \<open>
  For C1: a quarter of the way from one example viewpoint to the other, and the two
  endpoint laws at the rotations 0 and 90.
\<close>

theorem interpolateViewpoint_binary64_blend_witness:
  "viewpointOf [Viewpoint viewpointA] = Some viewpointA \<and>
   viewpointOf [Viewpoint viewpointB] = Some viewpointB \<and>
   interpolateViewpoint noFailure
     \<lparr>slideCurrent = [Viewpoint viewpointA], slideNext = Some [Viewpoint viewpointB],
      progress = 1 / 4\<rparr> pageWorld
     = Done Undefined
         (pageWorld\<lparr>sdkCalls :=
             [ViewpointFromJSON (Some (interpolatedViewpoint (1 / 4) viewpointA viewpointB)),
              MapViewGoTo (Some (interpolatedViewpoint (1 / 4) viewpointA viewpointB))]\<rparr>) \<and>
   rotation (interpolatedViewpoint (1 / 4) viewpointA viewpointB) = Fin (45 / 2) \<and>
   scale (interpolatedViewpoint (1 / 4) viewpointA viewpointB) = Fin 2000 \<and>
   xmin (targetGeometry (interpolatedViewpoint (1 / 4) viewpointA viewpointB)) = Fin 0 \<and>
   wkid (spatialReference (targetGeometry (interpolatedViewpoint (1 / 4) viewpointA viewpointB)))
     = Some 102100 \<and>
   isDouble 0 \<and> isDouble 90 \<and> isDouble (90 - 0) \<and>
   dsub (Fin 90) (Fin 0) = Fin 90 \<and>
   dadd (Fin 0) (dmul (dsub (Fin 90) (Fin 0)) (Fin 0)) = Fin 0 \<and>
   dadd (Fin 0) (dmul (dsub (Fin 90) (Fin 0)) (Fin 1)) = Fin 90"
proof -
  have a: "viewpointOf [Viewpoint viewpointA] = Some viewpointA"
    and b: "viewpointOf [Viewpoint viewpointB] = Some viewpointB"
    by (simp_all add: viewpointOf_def)
  have ok: "\<not> noFailure (ViewpointFromJSON (Some (interpolatedViewpoint (1 / 4) viewpointA viewpointB)))"
    "\<not> noFailure (MapViewGoTo (Some (interpolatedViewpoint (1 / 4) viewpointA viewpointB)))"
    by (simp_all add: noFailure_def)
  have dbl: "isDouble 0" "isDouble 90" "isDouble (90 - 0)"
    by (simp_all add: isDouble_def binary64_eval)
  have diff: "dsub (Fin 90) (Fin 0) = Fin 90"
    by (simp add: binary64_eval)
  have blend: "rotation (interpolatedViewpoint (1 / 4) viewpointA viewpointB) = Fin (45 / 2)"
    "scale (interpolatedViewpoint (1 / 4) viewpointA viewpointB) = Fin 2000"
    "xmin (targetGeometry (interpolatedViewpoint (1 / 4) viewpointA viewpointB)) = Fin 0"
    by (simp_all add: interpolatedViewpoint_def interpolate_def viewpointA_def viewpointB_def
          binary64_eval)
  have wk: "wkid (spatialReference (targetGeometry (interpolatedViewpoint (1 / 4) viewpointA viewpointB)))
     = Some 102100"
    by (simp add: interpolatedViewpoint_def viewpointA_def)
  note t = interpolateViewpoint_binary64_blend [OF a b ok, of pageWorld 0 90]
  have run: "interpolateViewpoint noFailure
     \<lparr>slideCurrent = [Viewpoint viewpointA], slideNext = Some [Viewpoint viewpointB],
      progress = 1 / 4\<rparr> pageWorld
     = Done Undefined
         (pageWorld\<lparr>sdkCalls :=
             [ViewpointFromJSON (Some (interpolatedViewpoint (1 / 4) viewpointA viewpointB)),
              MapViewGoTo (Some (interpolatedViewpoint (1 / 4) viewpointA viewpointB))]\<rparr>)"
    using conjunct1 [OF t] by (simp add: pageWorld_def)
  have e0: "dadd (Fin 0) (dmul (dsub (Fin 90) (Fin 0)) (Fin 0)) = Fin 0"
    using t dbl diff by simp
  have e1: "dadd (Fin 0) (dmul (dsub (Fin 90) (Fin 0)) (Fin 1)) = Fin 90"
    using t dbl by simp
  show ?thesis
    by (intro conjI) (rule a b run blend wk dbl diff e0 e1)+
qed

text \<open>
  Claim C9: when the next slide is absent, or has no viewpoint, \<open>interpolateViewpoint\<close>
  returns at once: the state is the one it was called in, so no viewpoint was built
  and neither \<^verbatim>\<open>Viewpoint.fromJSON\<close> nor \<^verbatim>\<open>mapView.goTo\<close> was called, whatever the
  current slide holds and whatever the SDK would have done.
\<close>

theorem interpolateViewpoint_without_next_is_noop:
  assumes "next = None \<or> (\<exists>sn. next = Some sn \<and> viewpointOf sn = None)"
  shows "interpolateViewpoint fails \<lparr>slideCurrent = current, slideNext = next, progress = p\<rparr> w
           = Done Undefined w"
  using assms by (auto simp add: interpolateViewpoint_def Let_def)

theorem interpolateViewpoint_without_next_is_noop_witness:
  "interpolateViewpoint goToFails
     \<lparr>slideCurrent = [Viewpoint viewpointA], slideNext = None, progress = 1 / 2\<rparr> pageWorld
     = Done Undefined pageWorld \<and>
   viewpointOf [TimeSlider (windowOf 1 ''days'')] = None \<and>
   interpolateViewpoint noFailure
     \<lparr>slideCurrent = [Viewpoint viewpointA],
      slideNext = Some [TimeSlider (windowOf 1 ''days'')], progress = 1 / 2\<rparr> pageWorld
     = Done Undefined pageWorld \<and>
   sdkCalls pageWorld = []"
proof -
  have none: "viewpointOf [TimeSlider (windowOf 1 ''days'')] = None"
    by (simp add: viewpointOf_def)
  then have h: "Some [TimeSlider (windowOf 1 ''days'')] = None \<or>
      (\<exists>sn. Some [TimeSlider (windowOf 1 ''days'')] = Some sn \<and> viewpointOf sn = None)"
    by simp
  show ?thesis
    using none
      interpolateViewpoint_without_next_is_noop
        [of None goToFails "[Viewpoint viewpointA]" "1 / 2" pageWorld]
      interpolateViewpoint_without_next_is_noop
        [OF h, of noFailure "[Viewpoint viewpointA]" "1 / 2" pageWorld]
    by (simp add: pageWorld_def)
qed

subsection \<open>The time slider\<close>

lemma jmax_Fin: "jmax (Fin a) (Fin b) = Fin (max a b)"
  by (simp add: max_def)

lemma jmin_Fin: "jmin (Fin a) (Fin b) = Fin (min a b)"
  by (simp add: min_def)








text \<open>
  With a positive step and a \<^verbatim>\<open>stop\<close> that returns, the call sets the end of the
  extent and halts playback.
\<close>

lemma interpolateTimeSlider_positive_step:
  assumes "timeSliderOf current = Some tw" and "stepMsOf tw = Fin s" and "0 < s"
    and "timeSlider w = Some sl" and "\<not> fails TimeSliderStop"
  shows "interpolateTimeSlider fails \<lparr>slideCurrent = current, slideNext = next, progress = p\<rparr> w
           = Done Undefined
               (w\<lparr>sdkCalls := sdkCalls w @ [TimeSliderStop],
                  timeSlider :=
                    Some (sl\<lparr>timeExtent :=
                               Some \<lparr>extentStart = None,
                                     extentEnd = newDate (clampedTimeOf tw p)\<rparr>,
                             playing := False\<rparr>)\<rparr>)"
  using assms
  by (simp add: interpolateTimeSlider_def interpolateTimeSliderBody_def Let_def
        timeSliderStop_def sdk_def andThen_def tryCatch_def)

text \<open>
  When the step size is zero or negative the function returns the date of the clamped
  time to its caller and does nothing else: the state is the one it was called in.
\<close>

lemma interpolateTimeSlider_nonpositive_step:
  assumes "timeSliderOf current = Some tw" and "jle (stepMsOf tw) (Fin 0)"
  shows "interpolateTimeSlider fails \<lparr>slideCurrent = current, slideNext = next, progress = p\<rparr> w
           = Done (DateObject (newDate (jmin (interpolatedTimeOf tw p)
                                            (Fin (real_of_int (timeSliderEnd tw)))))) w"
  using assms
  by (simp add: interpolateTimeSlider_def interpolateTimeSliderBody_def Let_def tryCatch_def)

text \<open>
  A unit that is neither one of the eight listed nor the name of a member of
  \<^verbatim>\<open>Object.prototype\<close> gives a zero step; the name of such a member gives \<^verbatim>\<open>NaN\<close>,
  which is not \<open>\<le> 0\<close>.
\<close>

lemma stepMsOf_unlisted_unit:
  assumes "unitToMs (timeSliderUnit tw) = None"
    and "timeSliderUnit tw \<notin> set objectPrototypeFunctions"
    and "timeSliderUnit tw \<noteq> ''__proto__''"
  shows "stepMsOf tw = Fin 0"
  using assms by (simp add: stepMsOf_def unitFactor_def getProperty_def dmul_def round64_def)

lemma stepMsOf_inherited_unit:
  assumes "timeSliderUnit tw \<in> set objectPrototypeFunctions \<or> timeSliderUnit tw = ''__proto__''"
  shows "stepMsOf tw = NaN \<and> \<not> jle (stepMsOf tw) (Fin 0)"
proof -
  have "unitToMs (timeSliderUnit tw) = None"
    using assms by (auto simp add: unitToMs_def objectPrototypeFunctions_def)
  with assms have "unitFactor (timeSliderUnit tw) = NaN"
    by (auto simp add: unitFactor_def getProperty_def)
  then show ?thesis by (simp add: stepMsOf_def dmul_def)
qed

text \<open>
  Claim C3 says that with a zero or negative step size \<open>interpolateTimeSlider\<close> skips
  the snapping, clamps the interpolated time to the end bound, sets the slider's end-time
  extent to it and halts playback. The code computes the clamped time but returns it
  from the function, before the assignment to \<^verbatim>\<open>timeSlider.timeExtent\<close> and the call of
  \<^verbatim>\<open>timeSlider.stop()\<close>; the dispatcher drops the returned date. The theorem evaluates
  the code half way through a ten-second window, for a step of 0 days and for a step of
  2 in a unit the table does not list: the slider keeps no extent and goes on playing.
\<close>

theorem interpolateTimeSlider_zero_step_leaves_slider:
  "stepMsOf (windowOf 0 ''days'') = Fin 0 \<and>
   stepMsOf (windowOf 2 ''fortnights'') = Fin 0 \<and>
   interpolateTimeSlider noFailure
     \<lparr>slideCurrent = [TimeSlider (windowOf 0 ''days'')], slideNext = None, progress = 1 / 2\<rparr>
     pageWorld = Done (DateObject (Date 5000)) pageWorld \<and>
   interpolateTimeSlider noFailure
     \<lparr>slideCurrent = [TimeSlider (windowOf 2 ''fortnights'')], slideNext = None,
      progress = 1 / 2\<rparr>
     pageWorld = Done (DateObject (Date 5000)) pageWorld \<and>
   scrollAnimation noFailure [TimeSlider (windowOf 0 ''days'')] None (1 / 2) pageWorld
     = Done Undefined (pageWorld\<lparr>invoked := [''timeSlider'']\<rparr>) \<and>
   timeSlider pageWorld = Some \<lparr>timeExtent = None, playing = True\<rparr>"
  by (simp add: scrollAnimation_def scrollAnimationCallback_def callEntry_def
        scrollHandlers_def interpolateTimeSlider_def interpolateTimeSliderBody_def
        timeSliderOf_def stepMsOf_def unitFactor_def getProperty_def unitToMs_def
        objectPrototypeFunctions_def interpolatedTimeOf_def interpolate_def
        andThen_def tryCatch_def pageWorld_def windowOf_def noFailure_def binary64_eval)


section \<open>Layer visibility: results\<close>

lemma setLayerVisibility_map:
  "setLayerVisibility layerNames v layers =
     map (\<lambda>l. if title l \<in> namesOf layerNames then l\<lparr>visible := v\<rparr> else l) layers"
  by (cases layerNames) (simp_all add: setLayerVisibility_def namesOf_def)

text \<open>
  Claim C10: \<open>toggleLayerVisibility\<close> applies the \<open>layersOn\<close> pass and then the
  \<open>layersOff\<close> pass to the layers of the map. The layers keep their positions and
  titles; a layer whose title is in both lists ends not visible, and a layer whose title
  is in neither is the layer it was.
\<close>

theorem toggleLayerVisibility_on_then_off:
  assumes "layerVisibilityOf data = Some lv"
  shows
    "\<exists>w'. toggleLayerVisibility fails \<lparr>slideData = data, embedded = emb\<rparr> w
             = Done Undefined w' \<and>
           mapLayers w' = setLayerVisibility (layersOff lv) False
                            (setLayerVisibility (layersOn lv) True (mapLayers w)) \<and>
           length (mapLayers w') = length (mapLayers w) \<and>
           (\<forall>i < length (mapLayers w).
              title (mapLayers w' ! i) = title (mapLayers w ! i) \<and>
              (title (mapLayers w ! i) \<in> namesOf (layersOn lv) \<inter> namesOf (layersOff lv)
                 \<longrightarrow> \<not> visible (mapLayers w' ! i)) \<and>
              (title (mapLayers w ! i) \<notin> namesOf (layersOn lv) \<union> namesOf (layersOff lv)
                 \<longrightarrow> mapLayers w' ! i = mapLayers w ! i))"
  using assms
  by (simp add: toggleLayerVisibility_def setLayerVisibility_map)

text \<open>
  For C10: \<^verbatim>\<open>tracks\<close> is switched on, \<^verbatim>\<open>ports\<close> is in both lists and ends off,
  \<^verbatim>\<open>labels\<close> is in neither and stays as it was.
\<close>

theorem toggleLayerVisibility_on_then_off_witness:
  "layerVisibilityOf
     [LayerVisibility \<lparr>layersOn = Some [''tracks'', ''ports''], layersOff = Some [''ports'']\<rparr>]
     = Some \<lparr>layersOn = Some [''tracks'', ''ports''], layersOff = Some [''ports'']\<rparr> \<and>
   toggleLayerVisibility noFailure
     \<lparr>slideData =
        [LayerVisibility \<lparr>layersOn = Some [''tracks'', ''ports''], layersOff = Some [''ports'']\<rparr>],
      embedded = False\<rparr> pageWorld
     = Done Undefined
         (pageWorld\<lparr>mapLayers :=
            [\<lparr>title = ''tracks'', visible = True\<rparr>,
             \<lparr>title = ''ports'', visible = False\<rparr>,
             \<lparr>title = ''labels'', visible = True\<rparr>]\<rparr>)"
proof -
  have lv: "layerVisibilityOf
     [LayerVisibility \<lparr>layersOn = Some [''tracks'', ''ports''], layersOff = Some [''ports'']\<rparr>]
     = Some \<lparr>layersOn = Some [''tracks'', ''ports''], layersOff = Some [''ports'']\<rparr>"
    by (simp add: layerVisibilityOf_def)
  show ?thesis
    using lv toggleLayerVisibility_on_then_off [OF lv, of noFailure False pageWorld]
    by (simp add: toggleLayerVisibility_def setLayerVisibility_def pageWorld_def)
qed



section \<open>The dispatchers: results\<close>

subsection \<open>No handler touches the list of called keys\<close>

lemma invoked_sdk: "invoked (worldOf (sdk fails c w)) = invoked w"
  by (simp add: sdk_def Let_def)

lemma invoked_andThen:
  assumes "invoked (worldOf r) = i" "\<And>w. invoked w = i \<Longrightarrow> invoked (worldOf (f w)) = i"
  shows "invoked (worldOf (andThen r f)) = i"
  using assms by (cases r) (simp_all add: andThen_def)

lemma invoked_tryCatch:
  assumes "invoked (worldOf r) = i" "\<And>e w. invoked w = i \<Longrightarrow> invoked (worldOf (h e w)) = i"
  shows "invoked (worldOf (tryCatch r h)) = i"
  using assms by (cases r) (simp_all add: tryCatch_def)

lemma invoked_consoleError: "invoked (consoleError m w) = invoked w"
  by (simp add: consoleError_def)

lemma invoked_interpolateViewpoint:
  "invoked (worldOf (interpolateViewpoint fails ctx w)) = invoked w"
  by (auto simp add: interpolateViewpoint_def Let_def invoked_sdk
      split: option.splits intro!: invoked_andThen)

lemma invoked_timeSliderStop: "invoked (worldOf (timeSliderStop fails w)) = invoked w"
  unfolding timeSliderStop_def
  by (rule invoked_andThen) (simp_all add: invoked_sdk)

lemma invoked_interpolateTimeSlider:
  "invoked (worldOf (interpolateTimeSlider fails ctx w)) = invoked w"
  unfolding interpolateTimeSlider_def
  by (rule invoked_tryCatch)
     (auto simp add: interpolateTimeSliderBody_def Let_def invoked_timeSliderStop
        invoked_consoleError split: option.splits)

lemma invoked_runScrollHandler:
  "invoked (worldOf (runScrollHandler fails ctx h w)) = invoked w"
  by (cases h) (simp_all add: invoked_interpolateViewpoint invoked_interpolateTimeSlider)

lemma invoked_toggleViewpoint: "invoked (worldOf (toggleViewpoint fails ctx w)) = invoked w"
  unfolding toggleViewpoint_def
  by (rule invoked_andThen) (simp_all add: invoked_sdk)

lemma invoked_toggleLayerVisibility:
  "invoked (worldOf (toggleLayerVisibility fails ctx w)) = invoked w"
  by (simp add: toggleLayerVisibility_def split: option.splits)

lemma invoked_applyTrackRendererBody:
  "invoked (worldOf (applyTrackRendererBody fails tr tc w)) = invoked w"
  unfolding applyTrackRendererBody_def
  by (auto split: option.splits
      intro!: invoked_andThen invoked_tryCatch simp add: invoked_sdk invoked_consoleError)

lemma invoked_toggleTrackRenderer:
  "invoked (worldOf (toggleTrackRenderer fails ctx w)) = invoked w"
  unfolding toggleTrackRenderer_def
  by (rule invoked_tryCatch) (simp_all add: invoked_applyTrackRendererBody invoked_consoleError)

lemma invoked_runSlideHandler:
  "invoked (worldOf (runSlideHandler fails ctx h w)) = invoked w"
  by (cases h) (simp_all add: invoked_toggleViewpoint toggleTimeSlider_def
      invoked_toggleLayerVisibility invoked_toggleTrackRenderer)

subsection \<open>One callback\<close>

lemma callback_shape:
  "andThen (tryCatch r (\<lambda>error w. Done Undefined (g error w))) (Done Undefined) =
     Done Undefined (case r of Done _ w \<Rightarrow> w | Threw e w \<Rightarrow> g e w)"
  by (cases r) (simp_all add: andThen_def tryCatch_def)

lemma callEntry_invoked:
  assumes "isFunction p" "\<And>h w. invoked (worldOf (run h w)) = invoked w"
  shows "invoked (worldOf (callEntry run t k p w)) = invoked w @ [k]"
  using assms by (cases p) (simp_all add: callEntry_def Let_def)

lemma callEntry_not_function:
  "\<not> isFunction p \<Longrightarrow> callEntry run t k p w = Threw TypeError w"
  by (cases p) (simp_all add: callEntry_def)

lemma scrollAnimationCallback_Done:
  assumes "isFunction (getProperty scrollHandlers k)"
  shows "\<exists>w'. scrollAnimationCallback fails ctx k w = Done Undefined w' \<and>
              invoked w' = invoked w @ [k]"
proof -
  let ?r = "callEntry (runScrollHandler fails ctx) False k (getProperty scrollHandlers k) w"
  have "invoked (worldOf ?r) = invoked w @ [k]"
    using assms by (rule callEntry_invoked) (rule invoked_runScrollHandler)
  then show ?thesis
    unfolding scrollAnimationCallback_def callback_shape
    by (cases ?r) (simp_all add: invoked_consoleError)
qed

lemma slideAnimationCallback_Done:
  "\<exists>w'. slideAnimationCallback fails ctx k w = Done Undefined w' \<and>
         invoked w' = invoked w @
           (if isFunction (getProperty slideHandlers k)
               \<and> \<not> (embedded ctx \<and> k \<in> NON_EMBED_EXCLUDE_KEYS) then [k] else [])"
proof (cases "getProperty slideHandlers k = Absent
              \<or> (embedded ctx \<and> k \<in> NON_EMBED_EXCLUDE_KEYS)")
  case True
  then show ?thesis
    by (auto simp add: slideAnimationCallback_def Let_def)
next
  case False
  let ?r = "callEntry (runSlideHandler fails ctx) True k (getProperty slideHandlers k) w"
  show ?thesis
  proof (cases "isFunction (getProperty slideHandlers k)")
    case True
    have "invoked (worldOf ?r) = invoked w @ [k]"
      using True by (rule callEntry_invoked) (rule invoked_runSlideHandler)
    with True False show ?thesis
      unfolding slideAnimationCallback_def Let_def callback_shape
      by (cases ?r) (simp_all add: invoked_consoleError)
  next
    case nf: False
    with False show ?thesis
      unfolding slideAnimationCallback_def Let_def callback_shape
      by (simp add: callEntry_not_function invoked_consoleError)
  qed
qed

subsection \<open>The whole loop\<close>

lemma forEach_invoked:
  assumes "\<And>x w. x \<in> set xs \<Longrightarrow>
             \<exists>w'. f x w = Done Undefined w' \<and> invoked w' = invoked w @ g x"
  shows "\<exists>w'. forEach f xs w = Done Undefined w' \<and>
              invoked w' = invoked w @ concat (map g xs)"
  using assms
proof (induction xs arbitrary: w)
  case Nil
  then show ?case by simp
next
  case (Cons x xs)
  from Cons.prems [of x w] obtain w1
    where w1: "f x w = Done Undefined w1" "invoked w1 = invoked w @ g x" by auto
  from Cons.IH [of w1] Cons.prems obtain w2
    where w2: "forEach f xs w1 = Done Undefined w2"
      "invoked w2 = invoked w1 @ concat (map g xs)" by auto
  from w1 w2 show ?case by (simp add: andThen_def)
qed

lemma concat_singletons: "concat (map (\<lambda>x. [x]) xs) = xs"
  by (induction xs) simp_all

lemma concat_filter:
  "concat (map ((\<lambda>x. if P x then [x] else []) \<circ> f) xs) = filter P (map f xs)"
  by (induction xs) simp_all

text \<open>
  Neither dispatcher throws, and each calls the table entry of every key it does not
  skip, in the order of the keys.
\<close>

lemma scrollAnimation_invoked:
  "\<exists>w'. scrollAnimation fails current next p w = Done Undefined w' \<and>
         invoked w' =
           invoked w @ filter (\<lambda>k. isFunction (getProperty scrollHandlers k)) (map key current)"
proof -
  let ?ks = "filter (\<lambda>k. isFunction (getProperty scrollHandlers k)) (map key current)"
  let ?ctx = "\<lparr>slideCurrent = current, slideNext = next, progress = p\<rparr>"
  have "\<exists>w'. forEach (scrollAnimationCallback fails ?ctx) ?ks w = Done Undefined w' \<and>
              invoked w' = invoked w @ concat (map (\<lambda>k. [k]) ?ks)"
    by (rule forEach_invoked) (simp add: scrollAnimationCallback_Done)
  then show ?thesis
    by (simp add: scrollAnimation_def Let_def concat_singletons)
qed

lemma slideAnimation_invoked:
  "\<exists>w'. slideAnimation fails data emb w = Done Undefined w' \<and>
         invoked w' = invoked w @
           filter (\<lambda>k. isFunction (getProperty slideHandlers k)
                        \<and> \<not> (emb \<and> k \<in> NON_EMBED_EXCLUDE_KEYS)) (map key data)"
proof -
  let ?ctx = "\<lparr>slideData = data, embedded = emb\<rparr>"
  let ?g = "\<lambda>k. if isFunction (getProperty slideHandlers k)
                    \<and> \<not> (emb \<and> k \<in> NON_EMBED_EXCLUDE_KEYS) then [k] else []"
  have "\<exists>w'. forEach (slideAnimationCallback fails ?ctx) (map key data) w = Done Undefined w' \<and>
              invoked w' = invoked w @ concat (map ?g (map key data))"
    by (rule forEach_invoked) (use slideAnimationCallback_Done [of fails ?ctx] in simp)
  then show ?thesis
    by (simp add: slideAnimation_def Let_def concat_filter)
qed

subsection \<open>Keys without a handler\<close>

text \<open>
  A key that is neither registered nor the name of a member of \<^verbatim>\<open>Object.prototype\<close>
  has no entry in either table, and a slide made of such keys leaves the state untouched.
\<close>

lemma getProperty_plain_key:
  assumes "own k = None" "k \<notin> set objectPrototypeFunctions" "k \<noteq> ''__proto__''"
  shows "getProperty own k = Absent"
  using assms by (simp add: getProperty_def)

lemma scrollAnimation_skips_plain_keys:
  assumes "\<And>k. k \<in> set (map key current) \<Longrightarrow> getProperty scrollHandlers k = Absent"
  shows "scrollAnimation fails current next p w = Done Undefined w"
proof -
  have "filter (\<lambda>k. isFunction (getProperty scrollHandlers k)) (map key current) = []"
    using assms by (simp add: filter_empty_conv)
  then show ?thesis by (simp add: scrollAnimation_def Let_def)
qed

lemma forEach_skip:
  assumes "\<And>x w. x \<in> set xs \<Longrightarrow> f x w = Done Undefined w"
  shows "forEach f xs w = Done Undefined w"
  using assms by (induction xs) (simp_all add: andThen_def)

lemma slideAnimation_skips_plain_keys:
  assumes "\<And>k. k \<in> set (map key data) \<Longrightarrow> getProperty slideHandlers k = Absent"
  shows "slideAnimation fails data emb w = Done Undefined w"
  unfolding slideAnimation_def Let_def
  by (rule forEach_skip) (simp add: slideAnimationCallback_def assms)

text \<open>
  Claim C5 says that for every key of a slide other than the four registered ones
  neither dispatcher throws or calls a handler: the key is skipped silently. Neither
  dispatcher throws, but the lookup \<^verbatim>\<open>choreographyHandlers[key]\<close> also finds what the
  table inherits, so a key such as \<^verbatim>\<open>toString\<close> or \<^verbatim>\<open>valueOf\<close> passes both guards and
  the function found is called with the context. The theorem evaluates the code on
  slides that hold only such keys: the scroll dispatcher calls \<^verbatim>\<open>toString\<close>; the slide
  dispatcher calls \<^verbatim>\<open>valueOf\<close>, which throws without a \<^verbatim>\<open>this\<close>, and tries to call the
  object found under \<^verbatim>\<open>__proto__\<close>; both errors are printed.
\<close>

theorem unregistered_inherited_keys_are_called:
  "scrollHandlers ''toString'' = None \<and>
   slideHandlers ''valueOf'' = None \<and>
   slideHandlers ''__proto__'' = None \<and>
   scrollAnimation noFailure [Other ''toString''] None (1 / 2) pageWorld
     = Done Undefined (pageWorld\<lparr>invoked := [''toString'']\<rparr>) \<and>
   slideAnimation noFailure [Other ''valueOf'', Other ''__proto__''] False pageWorld
     = Done Undefined
         (pageWorld\<lparr>consoleErrors := [ErrorProcessing ''valueOf'' TypeError,
                                       ErrorProcessing ''__proto__'' TypeError],
                     invoked := [''valueOf'']\<rparr>)"
  by (simp add: scrollAnimation_def scrollAnimationCallback_def slideAnimation_def
        slideAnimationCallback_def callEntry_def getProperty_def scrollHandlers_def
        slideHandlers_def objectPrototypeFunctions_def inheritedCallThrows_def
        NON_EMBED_EXCLUDE_KEYS_def andThen_def tryCatch_def consoleError_def Let_def
        pageWorld_def noFailure_def)

subsection \<open>Handlers that throw\<close>

text \<open>
  Claim C6: in both dispatchers an exception thrown by the call for one key is caught
  inside the callback of the loop, which prints it and returns; so the dispatcher itself
  returns normally, and the table entry of every key it does not skip is called, whatever
  the earlier calls did. \<open>fails\<close> ranges over every way the SDK may throw.
\<close>

theorem dispatch_survives_handler_errors:
  "(callEntry (runScrollHandler fails sctx) False k (getProperty scrollHandlers k) w
      = Threw e w1
    \<longrightarrow> scrollAnimationCallback fails sctx k w
          = Done Undefined (consoleError (ErrorProcessing k e) w1)) \<and>
   (callEntry (runSlideHandler fails ctx) True k (getProperty slideHandlers k) w
      = Threw e w1 \<and>
    getProperty slideHandlers k \<noteq> Absent \<and> \<not> (embedded ctx \<and> k \<in> NON_EMBED_EXCLUDE_KEYS)
    \<longrightarrow> slideAnimationCallback fails ctx k w
          = Done Undefined (consoleError (ErrorProcessing k e) w1)) \<and>
   (\<exists>w'. scrollAnimation fails current next p w = Done Undefined w' \<and>
          invoked w' =
            invoked w @
              filter (\<lambda>k. isFunction (getProperty scrollHandlers k)) (map key current)) \<and>
   (\<exists>w'. slideAnimation fails data emb w = Done Undefined w' \<and>
          invoked w' =
            invoked w @
              filter (\<lambda>k. isFunction (getProperty slideHandlers k)
                           \<and> \<not> (emb \<and> k \<in> NON_EMBED_EXCLUDE_KEYS)) (map key data))"
proof (intro conjI impI)
  assume "callEntry (runScrollHandler fails sctx) False k (getProperty scrollHandlers k) w
            = Threw e w1"
  then show "scrollAnimationCallback fails sctx k w
               = Done Undefined (consoleError (ErrorProcessing k e) w1)"
    unfolding scrollAnimationCallback_def callback_shape by simp
next
  assume "callEntry (runSlideHandler fails ctx) True k (getProperty slideHandlers k) w
            = Threw e w1 \<and>
          getProperty slideHandlers k \<noteq> Absent \<and>
          \<not> (embedded ctx \<and> k \<in> NON_EMBED_EXCLUDE_KEYS)"
  then show "slideAnimationCallback fails ctx k w
               = Done Undefined (consoleError (ErrorProcessing k e) w1)"
    unfolding slideAnimationCallback_def Let_def callback_shape by auto
next
  show "\<exists>w'. scrollAnimation fails current next p w = Done Undefined w' \<and>
          invoked w' =
            invoked w @
              filter (\<lambda>k. isFunction (getProperty scrollHandlers k)) (map key current)"
    by (rule scrollAnimation_invoked)
next
  show "\<exists>w'. slideAnimation fails data emb w = Done Undefined w' \<and>
          invoked w' =
            invoked w @
              filter (\<lambda>k. isFunction (getProperty slideHandlers k)
                           \<and> \<not> (emb \<and> k \<in> NON_EMBED_EXCLUDE_KEYS)) (map key data)"
    by (rule slideAnimation_invoked)
qed

text \<open>
  For C6: with an SDK whose \<^verbatim>\<open>goTo\<close> throws, the viewpoint handler of either
  dispatcher throws; the error is printed and the handlers of the keys after it run: the
  time slider is set and stopped, the layers are switched.
\<close>

theorem dispatch_survives_handler_errors_witness:
  "callEntry
     (runScrollHandler goToFails
        \<lparr>slideCurrent = [Viewpoint viewpointA, TimeSlider (windowOf 3 ''seconds'')],
         slideNext = Some [Viewpoint viewpointB], progress = 1 / 2\<rparr>)
     False ''viewpoint'' (getProperty scrollHandlers ''viewpoint'') pageWorld
     = Threw SdkError
         (pageWorld\<lparr>sdkCalls :=
             [ViewpointFromJSON (Some (interpolatedViewpoint (1 / 2) viewpointA viewpointB)),
              MapViewGoTo (Some (interpolatedViewpoint (1 / 2) viewpointA viewpointB))],
            invoked := [''viewpoint'']\<rparr>) \<and>
   scrollAnimation goToFails [Viewpoint viewpointA, TimeSlider (windowOf 3 ''seconds'')]
     (Some [Viewpoint viewpointB]) (1 / 2) pageWorld
     = Done Undefined
         (pageWorld\<lparr>sdkCalls :=
             [ViewpointFromJSON (Some (interpolatedViewpoint (1 / 2) viewpointA viewpointB)),
              MapViewGoTo (Some (interpolatedViewpoint (1 / 2) viewpointA viewpointB)),
              TimeSliderStop],
            timeSlider :=
              Some \<lparr>timeExtent = Some \<lparr>extentStart = None, extentEnd = Date 6000\<rparr>,
                    playing = False\<rparr>,
            consoleErrors := [ErrorProcessing ''viewpoint'' SdkError],
            invoked := [''viewpoint'', ''timeSlider'']\<rparr>) \<and>
   slideAnimation goToFails
     [Viewpoint viewpointA,
      LayerVisibility \<lparr>layersOn = Some [''tracks''], layersOff = Some [''labels'']\<rparr>]
     False pageWorld
     = Done Undefined
         (pageWorld\<lparr>sdkCalls := [ViewpointFromJSON (Some viewpointA),
                                  MapViewGoTo (Some viewpointA)],
            mapLayers := [\<lparr>title = ''tracks'', visible = True\<rparr>,
                          \<lparr>title = ''ports'', visible = True\<rparr>,
                          \<lparr>title = ''labels'', visible = False\<rparr>],
            consoleErrors := [ErrorProcessing ''viewpoint'' SdkError],
            invoked := [''viewpoint'', ''layerVisibility'']\<rparr>)"
  using dispatch_survives_handler_errors
    [of goToFails
        "\<lparr>slideCurrent = [Viewpoint viewpointA, TimeSlider (windowOf 3 ''seconds'')],
          slideNext = Some [Viewpoint viewpointB], progress = 1 / 2\<rparr>"
        "''viewpoint''" pageWorld SdkError
        "pageWorld\<lparr>sdkCalls :=
             [ViewpointFromJSON (Some (interpolatedViewpoint (1 / 2) viewpointA viewpointB)),
              MapViewGoTo (Some (interpolatedViewpoint (1 / 2) viewpointA viewpointB))],
            invoked := [''viewpoint'']\<rparr>"
        "\<lparr>slideData = [Viewpoint viewpointA], embedded = False\<rparr>"
        "[Viewpoint viewpointA, TimeSlider (windowOf 3 ''seconds'')]"
        "Some [Viewpoint viewpointB]" "1 / 2"
        "[Viewpoint viewpointA,
          LayerVisibility \<lparr>layersOn = Some [''tracks''], layersOff = Some [''labels'']\<rparr>]"
        False]
  by (simp add: scrollAnimation_def scrollAnimationCallback_def slideAnimation_def
        slideAnimationCallback_def callEntry_def getProperty_def scrollHandlers_def
        slideHandlers_def NON_EMBED_EXCLUDE_KEYS_def
        andThen_def tryCatch_def consoleError_def sdk_def Let_def
        interpolateViewpoint_def viewpointOf_def
        interpolateTimeSlider_def interpolateTimeSliderBody_def timeSliderOf_def stepMsOf_def
        unitFactor_def unitToMs_def interpolatedTimeOf_def interpolate_def clampedTimeOf_def
        snappedOffsetOf_def offsetOf_def binary64_eval timeSliderStop_def
        toggleViewpoint_def toggleLayerVisibility_def setLayerVisibility_def
        layerVisibilityOf_def pageWorld_def windowOf_def)


subsection \<open>The embedded context\<close>

lemma camera_sdk: "\<not> isCameraCall c \<Longrightarrow> cameraCalls (worldOf (sdk fails c w)) = cameraCalls w"
  by (simp add: sdk_def Let_def cameraCalls_def)

lemma camera_andThen:
  assumes "cameraCalls (worldOf r) = i"
    "\<And>w. cameraCalls w = i \<Longrightarrow> cameraCalls (worldOf (f w)) = i"
  shows "cameraCalls (worldOf (andThen r f)) = i"
  using assms by (cases r) (simp_all add: andThen_def)

lemma camera_tryCatch:
  assumes "cameraCalls (worldOf r) = i"
    "\<And>e w. cameraCalls w = i \<Longrightarrow> cameraCalls (worldOf (h e w)) = i"
  shows "cameraCalls (worldOf (tryCatch r h)) = i"
  using assms by (cases r) (simp_all add: tryCatch_def)

lemma camera_consoleError: "cameraCalls (consoleError m w) = cameraCalls w"
  by (simp add: consoleError_def cameraCalls_def)

lemma camera_mapLayers: "cameraCalls (w\<lparr>mapLayers := ls\<rparr>) = cameraCalls w"
  by (simp add: cameraCalls_def)

lemma camera_invoked: "cameraCalls (w\<lparr>invoked := ks\<rparr>) = cameraCalls w"
  by (simp add: cameraCalls_def)

lemma camera_toggleLayerVisibility:
  "cameraCalls (worldOf (toggleLayerVisibility fails ctx w)) = cameraCalls w"
  by (simp add: toggleLayerVisibility_def camera_mapLayers split: option.splits)

lemma camera_applyTrackRendererBody:
  "cameraCalls (worldOf (applyTrackRendererBody fails tr tc w)) = cameraCalls w"
  unfolding applyTrackRendererBody_def
  by (auto split: option.splits
      intro!: camera_andThen camera_tryCatch
      simp add: camera_sdk camera_consoleError camera_mapLayers)

lemma camera_toggleTrackRenderer:
  "cameraCalls (worldOf (toggleTrackRenderer fails ctx w)) = cameraCalls w"
  unfolding toggleTrackRenderer_def
  by (rule camera_tryCatch) (simp_all add: camera_applyTrackRendererBody camera_consoleError)

lemma slideHandlers_excluded:
  "slideHandlers k = Some h \<Longrightarrow>
     k \<in> NON_EMBED_EXCLUDE_KEYS \<longleftrightarrow> h = ToggleViewpoint \<or> h = ToggleTimeSlider"
  by (auto simp add: slideHandlers_def NON_EMBED_EXCLUDE_KEYS_def split: if_splits)

lemma camera_slideAnimationCallback_embedded:
  assumes "embedded ctx"
  shows "cameraCalls (worldOf (slideAnimationCallback fails ctx k w)) = cameraCalls w"
proof (cases "getProperty slideHandlers k")
  case (Own h)
  then have sh: "slideHandlers k = Some h"
    by (simp add: getProperty_def split: option.splits if_splits)
  show ?thesis
  proof (cases "k \<in> NON_EMBED_EXCLUDE_KEYS")
    case True
    with assms Own show ?thesis by (simp add: slideAnimationCallback_def)
  next
    case False
    with slideHandlers_excluded [OF sh]
    have h: "h = ToggleLayerVisibility \<or> h = ToggleTrackRenderer" by (cases h) simp_all
    let ?r = "runSlideHandler fails ctx h (w\<lparr>invoked := invoked w @ [k]\<rparr>)"
    from h have "cameraCalls (worldOf ?r) = cameraCalls w"
      by (auto simp add: camera_toggleLayerVisibility camera_toggleTrackRenderer camera_invoked)
    with Own False show ?thesis
      unfolding slideAnimationCallback_def Let_def callback_shape
      by (cases ?r) (simp_all add: callEntry_def camera_consoleError)
  qed
next
  case (InheritedFunction name)
  then show ?thesis
    unfolding slideAnimationCallback_def Let_def callback_shape
    by (simp add: callEntry_def Let_def camera_consoleError camera_invoked)
next
  case InheritedObject
  then show ?thesis
    unfolding slideAnimationCallback_def Let_def callback_shape
    by (simp add: callEntry_def camera_consoleError)
next
  case Absent
  then show ?thesis by (simp add: slideAnimationCallback_def)
qed

lemma camera_forEach:
  assumes "\<And>x w. cameraCalls (worldOf (f x w)) = cameraCalls w"
  shows "cameraCalls (worldOf (forEach f xs w)) = cameraCalls w"
proof (induction xs arbitrary: w)
  case Nil
  show ?case by simp
next
  case (Cons x xs)
  show ?case
    unfolding forEach.simps
    by (rule camera_andThen) (simp_all add: assms Cons.IH)
qed

lemma camera_slideAnimation_embedded:
  "cameraCalls (worldOf (slideAnimation fails data True w)) = cameraCalls w"
  unfolding slideAnimation_def Let_def
  by (rule camera_forEach) (simp add: camera_slideAnimationCallback_embedded)

lemma registered_isFunction:
  "slideHandlers k \<noteq> None \<Longrightarrow> isFunction (getProperty slideHandlers k)"
  by (auto simp add: getProperty_def)

text \<open>
  Claim C8: called with \<open>embedded = true\<close>, \<open>slideAnimation\<close> does not call the
  handlers of \<^verbatim>\<open>viewpoint\<close> and \<^verbatim>\<open>timeSlider\<close>, so it makes no call of
  \<^verbatim>\<open>Viewpoint.fromJSON\<close> or \<^verbatim>\<open>mapView.goTo\<close>, while the handlers of \<^verbatim>\<open>layerVisibility\<close> and
  \<^verbatim>\<open>trackRenderer\<close> run when the slide has these keys; called with \<open>embedded = false\<close> it
  calls the handler of every registered key of the slide. \<open>w1\<close> is the state after the
  embedded call, \<open>w2\<close> after the other; \<open>drop (length (invoked w))\<close> keeps the keys
  called during the call.
\<close>

theorem slideAnimation_embedded_suppression:
  "\<exists>w1 w2.
     slideAnimation fails data True w = Done Undefined w1 \<and>
     slideAnimation fails data False w = Done Undefined w2 \<and>
     ''viewpoint'' \<notin> set (drop (length (invoked w)) (invoked w1)) \<and>
     ''timeSlider'' \<notin> set (drop (length (invoked w)) (invoked w1)) \<and>
     cameraCalls w1 = cameraCalls w \<and>
     (''layerVisibility'' \<in> set (map key data)
        \<longrightarrow> ''layerVisibility'' \<in> set (drop (length (invoked w)) (invoked w1))) \<and>
     (''trackRenderer'' \<in> set (map key data)
        \<longrightarrow> ''trackRenderer'' \<in> set (drop (length (invoked w)) (invoked w1))) \<and>
     (\<forall>k \<in> set (map key data).
        slideHandlers k \<noteq> None \<longrightarrow> k \<in> set (drop (length (invoked w)) (invoked w2)))"
proof -
  from slideAnimation_invoked [of fails data True w] obtain w1 where
    w1: "slideAnimation fails data True w = Done Undefined w1"
      "invoked w1 = invoked w @
         filter (\<lambda>k. isFunction (getProperty slideHandlers k)
                      \<and> \<not> (True \<and> k \<in> NON_EMBED_EXCLUDE_KEYS)) (map key data)"
    by blast
  from slideAnimation_invoked [of fails data False w] obtain w2 where
    w2: "slideAnimation fails data False w = Done Undefined w2"
      "invoked w2 = invoked w @
         filter (\<lambda>k. isFunction (getProperty slideHandlers k)
                      \<and> \<not> (False \<and> k \<in> NON_EMBED_EXCLUDE_KEYS)) (map key data)"
    by blast
  have cam: "cameraCalls w1 = cameraCalls w"
    using camera_slideAnimation_embedded [of fails data w] w1(1) by simp
  have lv: "isFunction (getProperty slideHandlers ''layerVisibility'')"
    "''layerVisibility'' \<notin> NON_EMBED_EXCLUDE_KEYS"
    by (simp_all add: getProperty_def slideHandlers_def NON_EMBED_EXCLUDE_KEYS_def)
  have tr: "isFunction (getProperty slideHandlers ''trackRenderer'')"
    "''trackRenderer'' \<notin> NON_EMBED_EXCLUDE_KEYS"
    by (simp_all add: getProperty_def slideHandlers_def NON_EMBED_EXCLUDE_KEYS_def)
  have ex: "''viewpoint'' \<in> NON_EMBED_EXCLUDE_KEYS" "''timeSlider'' \<in> NON_EMBED_EXCLUDE_KEYS"
    by (simp_all add: NON_EMBED_EXCLUDE_KEYS_def)
  show ?thesis
    using w1 w2 cam lv tr ex registered_isFunction
    by (intro exI [of _ w1] exI [of _ w2]) auto
qed

text \<open>
  For C8: a slide with all four registered keys. Embedded, only the layers are
  touched; not embedded, the viewpoint is applied as well and all four handlers are
  called.
\<close>

theorem slideAnimation_embedded_suppression_witness:
  "slideAnimation noFailure
     [Viewpoint viewpointA, TimeSlider (windowOf 3 ''seconds''),
      LayerVisibility \<lparr>layersOn = Some [''tracks''], layersOff = Some [''labels'']\<rparr>,
      TrackRenderer \<lparr>trackLayerName = ''ports'', trackFieldName = ''id''\<rparr>]
     True pageWorld
     = Done Undefined
         (pageWorld\<lparr>sdkCalls := [MapRemove ''ports'', LayerClone ''ports'', MapAdd ''ports'',
                                  LayerWhen ''ports''],
            mapLayers := [\<lparr>title = ''tracks'', visible = True\<rparr>,
                          \<lparr>title = ''labels'', visible = False\<rparr>,
                          \<lparr>title = ''ports'', visible = True\<rparr>],
            invoked := [''layerVisibility'', ''trackRenderer'']\<rparr>) \<and>
   slideAnimation noFailure
     [Viewpoint viewpointA, TimeSlider (windowOf 3 ''seconds''),
      LayerVisibility \<lparr>layersOn = Some [''tracks''], layersOff = Some [''labels'']\<rparr>,
      TrackRenderer \<lparr>trackLayerName = ''ports'', trackFieldName = ''id''\<rparr>]
     False pageWorld
     = Done Undefined
         (pageWorld\<lparr>sdkCalls := [ViewpointFromJSON (Some viewpointA),
                                  MapViewGoTo (Some viewpointA),
                                  MapRemove ''ports'', LayerClone ''ports'', MapAdd ''ports'',
                                  LayerWhen ''ports''],
            mapLayers := [\<lparr>title = ''tracks'', visible = True\<rparr>,
                          \<lparr>title = ''labels'', visible = False\<rparr>,
                          \<lparr>title = ''ports'', visible = True\<rparr>],
            invoked := [''viewpoint'', ''timeSlider'', ''layerVisibility'',
                        ''trackRenderer'']\<rparr>)"
  using slideAnimation_embedded_suppression
    [of noFailure
        "[Viewpoint viewpointA, TimeSlider (windowOf 3 ''seconds''),
          LayerVisibility \<lparr>layersOn = Some [''tracks''], layersOff = Some [''labels'']\<rparr>,
          TrackRenderer \<lparr>trackLayerName = ''ports'', trackFieldName = ''id''\<rparr>]"
        pageWorld]
  by (simp add: slideAnimation_def slideAnimationCallback_def callEntry_def getProperty_def
        slideHandlers_def NON_EMBED_EXCLUDE_KEYS_def
        andThen_def tryCatch_def consoleError_def sdk_def Let_def
        toggleViewpoint_def viewpointOf_def toggleTimeSlider_def
        toggleLayerVisibility_def setLayerVisibility_def layerVisibilityOf_def
        toggleTrackRenderer_def applyTrackRendererBody_def trackRendererOf_def
        timeSliderOf_def pageWorld_def noFailure_def)




end
